theory Spec2Isabelle
  imports Main "HOL-Library.Char_ord" "HOL-Library.List_Lexorder" "HOL-Library.AList"
begin

section \<open>Data model\<close>

text \<open>
  The search backend of \<^verbatim>\<open>app/clients/movie_client.py\<close> and
  \<^verbatim>\<open>app/utils/utils_movies_client.py\<close>. Python strings are \<open>string\<close>
  (bytes of the UTF-8 text), \<open>Optional[T]\<close> is \<open>T option\<close>, a dict whose
  iteration order matters is an association list with distinct keys, in insertion order.

  The code never tests a value against \<open>None\<close>: every presence test
  (\<^verbatim>\<open>bool(params.title)\<close>, \<^verbatim>\<open>if genre:\<close>, \<^verbatim>\<open>x or y\<close>,
  \<^verbatim>\<open>if gid:\<close>) is Python truthiness, for which \<open>None\<close>, the empty string and
  the number \<open>0\<close> are falsy. Of a string, the words "set", "supplied" and "present"
  of the specification are read as that test, and "empty", "unset" and "absent" as its
  negation. A number that is \<open>0\<close> is present: where the code treats it as absent,
  the statements say so.
\<close>

datatype endpoint = Movie | Tv

datatype media_type = MovieType | Series

datatype source = TMDB | Merged

record MovieSearchParams =
  p_title :: "string option"
  p_actors :: "string option"
  p_type :: "media_type option"
  p_genre :: "string option"

record MovieResponse =
  m_id :: string
  m_title :: string
  m_year :: "int option"
  m_type :: media_type
  m_genres :: "string list"
  m_actors :: "string list"
  m_director :: "string option"
  m_runtime :: "string option"
  m_plot :: "string option"
  m_poster_url :: "string option"
  m_ratings :: "(string \<times> string) list"
  m_source :: source

text \<open>A raw catalog item: the keys of the TMDB dict that the code reads with \<^verbatim>\<open>.get\<close>.\<close>

record raw_item =
  i_id :: "int option"
  i_title :: "string option"
  i_name :: "string option"
  i_release_date :: "string option"
  i_first_air_date :: "string option"
  i_genre_ids :: "int list"
  i_poster_path :: "string option"

text \<open>The OMDB payload: the keys read by \<^verbatim>\<open>map_to_movie\<close> and \<^verbatim>\<open>_fetch_omdb_data\<close>.\<close>

record omdb_data =
  o_Response :: "string option"
  o_Title :: "string option"
  o_Year :: "string option"
  o_Director :: "string option"
  o_Runtime :: "string option"
  o_Plot :: "string option"
  o_Poster :: "string option"
  o_Ratings :: "(string \<times> string) list"

section \<open>Python primitives\<close>

text \<open>Truthiness of an optional string: \<^verbatim>\<open>bool(x)\<close> for \<open>x\<close> a \<^verbatim>\<open>str\<close> or \<^verbatim>\<open>None\<close>.\<close>

fun truthy :: "string option \<Rightarrow> bool" where
  "truthy None = False"
| "truthy (Some s) = (s \<noteq> [])"

text \<open>Truthiness of an optional integer: \<open>None\<close> and \<open>0\<close> are falsy.\<close>

fun truthy_int :: "int option \<Rightarrow> bool" where
  "truthy_int None = False"
| "truthy_int (Some n) = (n \<noteq> 0)"

text \<open>\<^verbatim>\<open>x or y\<close> on optional strings.\<close>

definition py_or :: "string option \<Rightarrow> string option \<Rightarrow> string option" where
  "py_or x y = (if truthy x then x else y)"

text \<open>
  \<^verbatim>\<open>str.lower\<close> is a function of the Python library, which folds every cased letter of
  Unicode. Each definition that calls it takes it as its parameter \<open>lower\<close>, and nothing is
  assumed of it but \<open>python_lower\<close>, where a statement says so: on ASCII text it folds the
  letters A to Z and keeps every other character.
\<close>

definition ascii_lower_char :: "char \<Rightarrow> char" where
  "ascii_lower_char c =
     (if CHR ''A'' \<le> c \<and> c \<le> CHR ''Z'' then char_of (of_char c + (32::nat)) else c)"

definition ascii_lower :: "string \<Rightarrow> string" where
  "ascii_lower s = map ascii_lower_char s"

definition is_ascii :: "string \<Rightarrow> bool" where
  "is_ascii s = (\<forall>c \<in> set s. of_char c < (128::nat))"

definition python_lower :: "(string \<Rightarrow> string) \<Rightarrow> bool" where
  "python_lower lower = (\<forall>s. is_ascii s \<longrightarrow> lower s = ascii_lower s)"

text \<open>\<^verbatim>\<open>needle in hay\<close> on strings: a scan for the needle at every position.\<close>

fun starts_with :: "string \<Rightarrow> string \<Rightarrow> bool" where
  "starts_with [] hay = True"
| "starts_with (n # ns) [] = False"
| "starts_with (n # ns) (h # hs) = (n = h \<and> starts_with ns hs)"

fun py_in :: "string \<Rightarrow> string \<Rightarrow> bool" where
  "py_in needle [] = starts_with needle []"
| "py_in needle (h # hs) = (starts_with needle (h # hs) \<or> py_in needle hs)"

text \<open>\<^verbatim>\<open>any(f(x) for x in xs)\<close>: a left-to-right scan that stops at the first hit.\<close>

fun py_any :: "('a \<Rightarrow> bool) \<Rightarrow> 'a list \<Rightarrow> bool" where
  "py_any f [] = False"
| "py_any f (x # xs) = (if f x then True else py_any f xs)"

section \<open>The match filter\<close>

text \<open>\<^verbatim>\<open>matches\<close> of \<^verbatim>\<open>utils_movies_client.py\<close>: three guarded early returns.\<close>

definition matches :: "(string \<Rightarrow> string) \<Rightarrow> MovieResponse \<Rightarrow> MovieSearchParams \<Rightarrow> bool" where
  "matches lower movie params =
     (if p_type params \<noteq> None \<and> Some (m_type movie) \<noteq> p_type params then False
      else if truthy (p_genre params) \<and>
              \<not> py_any (\<lambda>g. lower g = lower (the (p_genre params))) (m_genres movie)
        then False
      else if truthy (p_actors params) \<and>
              \<not> py_any (\<lambda>a. py_in (lower (the (p_actors params))) (lower a)) (m_actors movie)
        then False
      else True)"

text \<open>
  The comparisons as the specification words them, without the library's folding wherever
  the text is ASCII. Two characters are the same letter when they are equal or are the
  capital and the small form of one letter. Two ASCII strings are equal up to case when
  they have the same letters position by position, and one contains the other up to case
  when some stretch of it equals the other up to case. On text with other characters the
  comparison is the one of the lower-cased strings.
\<close>

definition same_letter :: "char \<Rightarrow> char \<Rightarrow> bool" where
  "same_letter c d =
     (c = d \<or>
      (CHR ''A'' \<le> c \<and> c \<le> CHR ''Z'' \<and> of_char d = of_char c + (32::nat)) \<or>
      (CHR ''A'' \<le> d \<and> d \<le> CHR ''Z'' \<and> of_char c = of_char d + (32::nat)))"

definition ci_equal :: "(string \<Rightarrow> string) \<Rightarrow> string \<Rightarrow> string \<Rightarrow> bool" where
  "ci_equal lower a b =
     (if is_ascii a \<and> is_ascii b then list_all2 same_letter a b else lower a = lower b)"


section \<open>Integers and their decimal text\<close>

definition is_digit :: "char \<Rightarrow> bool" where
  "is_digit c = (CHR ''0'' \<le> c \<and> c \<le> CHR ''9'')"

definition digit_val :: "char \<Rightarrow> nat" where
  "digit_val c = of_char c - 48"

definition digit_char :: "nat \<Rightarrow> char" where
  "digit_char n = ''0123456789'' ! n"

text \<open>\<^verbatim>\<open>str(n)\<close> for an integer: decimal digits, a minus sign when negative.\<close>

fun str_nat :: "nat \<Rightarrow> string" where
  "str_nat n = (if n < 10 then [digit_char n] else str_nat (n div 10) @ [digit_char (n mod 10)])"

declare str_nat.simps [simp del]

definition py_str :: "int \<Rightarrow> string" where
  "py_str i = (if i < 0 then CHR ''-'' # str_nat (nat (- i)) else str_nat (nat i))"

text \<open>\<^verbatim>\<open>str(x)\<close> for \<open>x\<close> an integer or \<^verbatim>\<open>None\<close>.\<close>

fun py_str_opt :: "int option \<Rightarrow> string" where
  "py_str_opt None = ''None''"
| "py_str_opt (Some i) = py_str i"

text \<open>
  \<^verbatim>\<open>int(s)\<close> for a string: white space around the number is dropped, one sign may lead,
  and single underscores may separate digits. Anything else is a \<^verbatim>\<open>ValueError\<close>
  (\<open>None\<close> here, turned into the error by \<open>py_int\<close>).
\<close>

definition is_space :: "char \<Rightarrow> bool" where
  "is_space c = (c = CHR '' '' \<or> (9::nat) \<le> of_char c \<and> of_char c \<le> (13::nat)
                 \<or> (28::nat) \<le> of_char c \<and> of_char c \<le> (31::nat))"

definition strip :: "string \<Rightarrow> string" where
  "strip s = rev (dropWhile is_space (rev (dropWhile is_space s)))"

fun parse_digits :: "nat \<Rightarrow> string \<Rightarrow> nat option" where
  "parse_digits acc [] = Some acc"
| "parse_digits acc [c] = (if is_digit c then Some (10 * acc + digit_val c) else None)"
| "parse_digits acc (c # d # ds) =
     (if is_digit c then parse_digits (10 * acc + digit_val c) (d # ds)
      else if c = CHR ''_'' \<and> is_digit d then parse_digits (10 * acc + digit_val d) ds
      else None)"

definition parse_nat :: "string \<Rightarrow> nat option" where
  "parse_nat s =
     (case s of [] \<Rightarrow> None
      | c # cs \<Rightarrow> if is_digit c then parse_digits (digit_val c) cs else None)"

definition parse_int :: "string \<Rightarrow> int option" where
  "parse_int s =
     (case strip s of [] \<Rightarrow> None
      | c # cs \<Rightarrow>
          if c = CHR ''-'' then map_option (\<lambda>n. - int n) (parse_nat cs)
          else if c = CHR ''+'' then map_option int (parse_nat cs)
          else map_option int (parse_nat (c # cs)))"

section \<open>Dictionaries\<close>

text \<open>
  A Python dict, in insertion order: storing under a key that is there replaces the value
  in place, a new key goes to the end. A dict comprehension stores its pairs one by one.
\<close>

definition dict_of :: "('k \<times> 'v) list \<Rightarrow> ('k \<times> 'v) list" where
  "dict_of kvs = foldl (\<lambda>d (k, v). AList.update k v d) [] kvs"

text \<open>\<^verbatim>\<open>d.get(k)\<close>.\<close>

definition dict_get :: "('k \<times> 'v) list \<Rightarrow> 'k \<Rightarrow> 'v option" where
  "dict_get d k = map_of d k"

section \<open>Upstream services, cache store and effects\<close>

text \<open>
  Every request the code sends: the TMDB paths under \<^verbatim>\<open>BASE_URL\<close> with the query
  parameters that vary, and the OMDB lookup.
\<close>

datatype request =
    GenreList endpoint
  | Search endpoint "string option"
  | SearchPerson string
  | Discover endpoint "string option" "string option"
  | PersonTvCredits "int option"
  | Popular endpoint
  | Credits endpoint "int option"
  | Detail endpoint "int option"
  | Omdb string

text \<open>
  What \<^verbatim>\<open>client.get\<close> gives back: a transport failure (time-out, connection error), or
  a response with its status code and its body, \<open>None\<close> when the body is not JSON.
  The body is typed by the keys the caller reads; a missing list-valued key
  (\<^verbatim>\<open>.get('results', [])\<close>) is the empty list.
\<close>

datatype 'a response = NetworkError | Response nat "'a option"

record upstream =
  api_genre_list :: "endpoint \<Rightarrow> (int \<times> string) list response"
  api_search :: "endpoint \<Rightarrow> string option \<Rightarrow> raw_item list response"
  api_search_person :: "string \<Rightarrow> int option list response"
  api_discover :: "endpoint \<Rightarrow> string option \<Rightarrow> string option \<Rightarrow> raw_item list response"
  api_tv_credits :: "int option \<Rightarrow> raw_item list response"
  api_popular :: "endpoint \<Rightarrow> raw_item list response"
  api_credits :: "endpoint \<Rightarrow> int option \<Rightarrow> string option list response"
  api_detail :: "endpoint \<Rightarrow> int option \<Rightarrow> string option response"
  api_omdb :: "string \<Rightarrow> omdb_data response"

datatype error =
    RequestError request
  | HTTPStatusError request nat
  | JSONDecodeError request
  | ValueError
  | ValidationError

text \<open>
  The state a request runs in. The Redis store holds four keys,
  \<^verbatim>\<open>genres:movie\<close>, \<^verbatim>\<open>genres:tv\<close>, \<^verbatim>\<open>popular:movie\<close> and
  \<^verbatim>\<open>popular:tv\<close>; each entry is the JSON value of the stored text (for a taxonomy the
  object's members, whose keys are strings) and the time it expires at, if any.
  \<open>calls\<close> is the trace of the requests sent so far, oldest first.
\<close>

record state =
  redis_genres :: "endpoint \<Rightarrow> ((string \<times> string) list \<times> nat option) option"
  redis_popular :: "endpoint \<Rightarrow> (raw_item list \<times> nat option) option"
  now :: nat
  calls :: "request list"

type_synonym 'a io = "state \<Rightarrow> (error + 'a) \<times> state"

definition return :: "'a \<Rightarrow> 'a io" where
  "return x s = (Inr x, s)"

definition raise :: "error \<Rightarrow> 'a io" where
  "raise e s = (Inl e, s)"

definition bind :: "'a io \<Rightarrow> ('a \<Rightarrow> 'b io) \<Rightarrow> 'b io" where
  "bind m f s = (case m s of (Inl e, s') \<Rightarrow> (Inl e, s') | (Inr x, s') \<Rightarrow> f x s')"

text \<open>
  \<^verbatim>\<open>asyncio.gather\<close>: the results come back in the order of the tasks and the first
  exception is raised. The tasks touch no shared state but the trace, so they are run one
  after the other.
\<close>

fun gather :: "'a io list \<Rightarrow> 'a list io" where
  "gather [] = return []"
| "gather (m # ms) = bind m (\<lambda>x. bind (gather ms) (\<lambda>xs. return (x # xs)))"

text \<open>An entry is read while it has not expired; \<^verbatim>\<open>ex=None\<close> never expires.\<close>

definition live :: "nat \<Rightarrow> ('a \<times> nat option) option \<Rightarrow> 'a option" where
  "live t entry =
     (case entry of None \<Rightarrow> None
      | Some (v, None) \<Rightarrow> Some v
      | Some (v, Some expiry) \<Rightarrow> if t < expiry then Some v else None)"

definition redis_get_genres :: "endpoint \<Rightarrow> (string \<times> string) list option io" where
  "redis_get_genres ep s = (Inr (live (now s) (redis_genres s ep)), s)"

definition redis_set_genres :: "endpoint \<Rightarrow> (string \<times> string) list \<Rightarrow> nat option \<Rightarrow> unit io" where
  "redis_set_genres ep v ex s =
     (Inr (), s\<lparr>redis_genres := (redis_genres s)(ep \<mapsto> (v, map_option (\<lambda>d. now s + d) ex))\<rparr>)"

definition redis_get_popular :: "endpoint \<Rightarrow> raw_item list option io" where
  "redis_get_popular ep s = (Inr (live (now s) (redis_popular s ep)), s)"

definition redis_set_popular :: "endpoint \<Rightarrow> raw_item list \<Rightarrow> nat option \<Rightarrow> unit io" where
  "redis_set_popular ep v ex s =
     (Inr (), s\<lparr>redis_popular := (redis_popular s)(ep \<mapsto> (v, map_option (\<lambda>d. now s + d) ex))\<rparr>)"

text \<open>\<^verbatim>\<open>await client.get(...)\<close>: the request is sent, a transport failure raises.\<close>

definition client_get :: "request \<Rightarrow> 'a response \<Rightarrow> (nat \<times> 'a option) io" where
  "client_get r resp s =
     (case resp of NetworkError \<Rightarrow> Inl (RequestError r) | Response st body \<Rightarrow> Inr (st, body),
      s\<lparr>calls := calls s @ [r]\<rparr>)"

text \<open>\<^verbatim>\<open>resp.raise_for_status()\<close>: every status outside 200..299 raises.\<close>

definition raise_for_status :: "request \<Rightarrow> nat \<Rightarrow> unit io" where
  "raise_for_status r st = (if 200 \<le> st \<and> st < 300 then return () else raise (HTTPStatusError r st))"

text \<open>\<^verbatim>\<open>resp.json()\<close>.\<close>

definition json :: "request \<Rightarrow> 'a option \<Rightarrow> 'a io" where
  "json r body = (case body of None \<Rightarrow> raise (JSONDecodeError r) | Some x \<Rightarrow> return x)"

text \<open>\<^verbatim>\<open>int(s)\<close> as an effect.\<close>

definition py_int :: "string \<Rightarrow> int io" where
  "py_int s = (case parse_int s of None \<Rightarrow> raise ValueError | Some i \<Rightarrow> return i)"

definition CACHE_TTL_POPULAR :: nat where
  "CACHE_TTL_POPULAR = 600"

definition ep_of :: "bool \<Rightarrow> endpoint" where
  "ep_of is_series = (if is_series then Tv else Movie)"

section \<open>Catalog and enrichment clients\<close>

text \<open>
  \<^verbatim>\<open>{int(k): v for k, v in json.loads(cached).items()}\<close>: the stored keys are parsed
  back one by one; a key that is no integer raises.
\<close>

fun int_keys :: "(string \<times> string) list \<Rightarrow> (int \<times> string) list \<Rightarrow> (int \<times> string) list io" where
  "int_keys [] d = return d"
| "int_keys ((k, v) # kvs) d = bind (py_int k) (\<lambda>i. int_keys kvs (AList.update i v d))"

text \<open>\<^verbatim>\<open>json.dumps(mapping)\<close>: the integer keys are written as their decimal text.\<close>

definition dumps_genres :: "(int \<times> string) list \<Rightarrow> (string \<times> string) list" where
  "dumps_genres mapping = map (\<lambda>(k, v). (py_str k, v)) mapping"

text \<open>
  \<^verbatim>\<open>fetch_genres\<close>. A stored text is never the empty string, so \<^verbatim>\<open>if cached:\<close>
  holds exactly when the key is there; \<^verbatim>\<open>json.loads\<close> builds the dict of the stored
  members.
\<close>

definition fetch_genres :: "upstream \<Rightarrow> bool \<Rightarrow> (int \<times> string) list io" where
  "fetch_genres w is_series =
     (let endpoint = ep_of is_series in
      bind (redis_get_genres endpoint) (\<lambda>cached.
        case cached of
          Some members \<Rightarrow> int_keys (dict_of members) []
        | None \<Rightarrow>
            bind (client_get (GenreList endpoint) (api_genre_list w endpoint)) (\<lambda>(st, body).
            bind (raise_for_status (GenreList endpoint) st) (\<lambda>_.
            bind (json (GenreList endpoint) body) (\<lambda>genres.
            let mapping = dict_of genres in
            bind (redis_set_genres endpoint (dumps_genres mapping) None) (\<lambda>_.
            return mapping))))))"

definition get_search_results :: "upstream \<Rightarrow> string option \<Rightarrow> bool \<Rightarrow> (raw_item list \<times> endpoint) io" where
  "get_search_results w title is_series =
     (let endpoint = ep_of is_series in
      bind (client_get (Search endpoint title) (api_search w endpoint title)) (\<lambda>(st, body).
      bind (raise_for_status (Search endpoint title) st) (\<lambda>_.
      bind (json (Search endpoint title) body) (\<lambda>results.
      return (results, endpoint)))))"

text \<open>
  \<^verbatim>\<open>next((i for i, n in genres.items() if n.lower() == genre.lower()), None)\<close>:
  the first taxonomy entry, in the dict's order, whose name is the genre up to case.
\<close>

fun find_genre_id :: "(string \<Rightarrow> string) \<Rightarrow> (int \<times> string) list \<Rightarrow> string \<Rightarrow> int option" where
  "find_genre_id lower [] genre = None"
| "find_genre_id lower ((i, n) # rest) genre =
     (if lower n = lower genre then Some i else find_genre_id lower rest genre)"

text \<open>The person search of both discovery paths: the IDs of the people found.\<close>

definition search_people :: "upstream \<Rightarrow> string \<Rightarrow> int option list io" where
  "search_people w name =
     bind (client_get (SearchPerson name) (api_search_person w name)) (\<lambda>(st, body).
     bind (raise_for_status (SearchPerson name) st) (\<lambda>_.
     json (SearchPerson name) body))"

text \<open>The call to \<^verbatim>\<open>/discover/{endpoint}\<close> that ends both discovery paths.\<close>

definition discover_call :: "upstream \<Rightarrow> endpoint \<Rightarrow> string option \<Rightarrow> string option \<Rightarrow> (raw_item list \<times> endpoint) io" where
  "discover_call w endpoint with_genres with_cast =
     bind (client_get (Discover endpoint with_genres with_cast)
             (api_discover w endpoint with_genres with_cast)) (\<lambda>(st, body).
     bind (raise_for_status (Discover endpoint with_genres with_cast) st) (\<lambda>_.
     bind (json (Discover endpoint with_genres with_cast) body) (\<lambda>results.
     return (results, endpoint))))"

text \<open>
  The \<^verbatim>\<open>with_genres\<close> parameter of a discovery call: the decimal text of the first
  matching genre ID, added to the query under \<^verbatim>\<open>if gid:\<close>.
\<close>

definition resolve_with_genres :: "(string \<Rightarrow> string) \<Rightarrow> upstream \<Rightarrow> bool \<Rightarrow> string option \<Rightarrow> string option io" where
  "resolve_with_genres lower w is_series genre =
     (if truthy genre then
        bind (fetch_genres w is_series) (\<lambda>genres.
        let gid = map_option py_str (find_genre_id lower genres (the genre)) in
        return (if truthy gid then gid else None))
      else return None)"

definition discover_movie_by_filters :: "(string \<Rightarrow> string) \<Rightarrow> upstream \<Rightarrow> string option \<Rightarrow> string option \<Rightarrow> (raw_item list \<times> endpoint) io" where
  "discover_movie_by_filters lower w genre actors =
     bind (resolve_with_genres lower w False genre) (\<lambda>with_genres.
     bind (if truthy actors then
             bind (search_people w (the actors)) (\<lambda>people.
             return (case people of [] \<Rightarrow> None | person # _ \<Rightarrow> Some (py_str_opt person)))
           else return None) (\<lambda>with_cast.
     discover_call w Movie with_genres with_cast))"

definition discover_tv_by_filters :: "(string \<Rightarrow> string) \<Rightarrow> upstream \<Rightarrow> string option \<Rightarrow> string option \<Rightarrow> (raw_item list \<times> endpoint) io" where
  "discover_tv_by_filters lower w genre actors =
     (if truthy actors then
        bind (search_people w (the actors)) (\<lambda>people.
        case people of
          [] \<Rightarrow> return ([], Tv)
        | person_id # _ \<Rightarrow>
            bind (client_get (PersonTvCredits person_id) (api_tv_credits w person_id)) (\<lambda>(st, body).
            bind (raise_for_status (PersonTvCredits person_id) st) (\<lambda>_.
            bind (json (PersonTvCredits person_id) body) (\<lambda>credits.
            if truthy genre then
              bind (fetch_genres w True) (\<lambda>genres.
              let genre_id = find_genre_id lower genres (the genre) in
              if truthy_int genre_id then
                return (filter (\<lambda>show. the genre_id \<in> set (i_genre_ids show)) credits, Tv)
              else return (credits, Tv))
            else return (credits, Tv)))))
      else
        bind (resolve_with_genres lower w True genre) (\<lambda>with_genres.
        discover_call w Tv with_genres None))"

definition discover_by_filters :: "(string \<Rightarrow> string) \<Rightarrow> upstream \<Rightarrow> string option \<Rightarrow> string option \<Rightarrow> bool \<Rightarrow> (raw_item list \<times> endpoint) io" where
  "discover_by_filters lower w genre actors is_series =
     (if is_series then discover_tv_by_filters lower w genre actors
      else discover_movie_by_filters lower w genre actors)"

definition get_popular :: "upstream \<Rightarrow> bool \<Rightarrow> raw_item list io" where
  "get_popular w is_series =
     (let endpoint = ep_of is_series in
      bind (redis_get_popular endpoint) (\<lambda>cached.
        case cached of
          Some items \<Rightarrow> return items
        | None \<Rightarrow>
            bind (client_get (Popular endpoint) (api_popular w endpoint)) (\<lambda>(st, body).
            bind (raise_for_status (Popular endpoint) st) (\<lambda>_.
            bind (json (Popular endpoint) body) (\<lambda>items.
            bind (redis_set_popular endpoint items (Some CACHE_TTL_POPULAR)) (\<lambda>_.
            return items))))))"

definition fetch_credits :: "upstream \<Rightarrow> endpoint \<Rightarrow> int option \<Rightarrow> string list io" where
  "fetch_credits w media_type tmdb_id =
     bind (client_get (Credits media_type tmdb_id) (api_credits w media_type tmdb_id)) (\<lambda>(st, body).
     bind (raise_for_status (Credits media_type tmdb_id) st) (\<lambda>_.
     bind (json (Credits media_type tmdb_id) body) (\<lambda>cast.
     return (map the (filter truthy cast)))))"

definition get_imdb_id :: "upstream \<Rightarrow> endpoint \<Rightarrow> int option \<Rightarrow> string option io" where
  "get_imdb_id w media_type tmdb_id =
     bind (client_get (Detail media_type tmdb_id) (api_detail w media_type tmdb_id)) (\<lambda>(st, body).
     if st = 200 then json (Detail media_type tmdb_id) body
     else return None)"

definition fetch_omdb_data :: "upstream \<Rightarrow> string \<Rightarrow> omdb_data option io" where
  "fetch_omdb_data w imdb_id =
     bind (client_get (Omdb imdb_id) (api_omdb w imdb_id)) (\<lambda>(st, body).
     bind (json (Omdb imdb_id) body) (\<lambda>data.
     if st = 200 \<and> o_Response data = Some ''True'' then return (Some data)
     else return None))"

section \<open>The record mapper\<close>

definition poster_prefix :: string where
  "poster_prefix = ''https://image.tmdb.org/t/p/w500''"

text \<open>\<^verbatim>\<open>int(date.split('-')[0]) if date else None\<close>.\<close>

definition year_of_date :: "string \<Rightarrow> int option io" where
  "year_of_date date =
     (if date = [] then return None
      else bind (py_int (takeWhile (\<lambda>c. c \<noteq> CHR ''-'') date)) (\<lambda>y. return (Some y)))"

text \<open>
  The constructor call \<^verbatim>\<open>MovieResponse(...)\<close>: the fields are validated against their
  types, and \<^verbatim>\<open>title\<close> is the one field that can arrive as \<^verbatim>\<open>None\<close> against a
  non-optional type.
\<close>

definition make_response ::
  "string \<Rightarrow> string option \<Rightarrow> int option \<Rightarrow> media_type \<Rightarrow> string list \<Rightarrow> string list \<Rightarrow>
   string option \<Rightarrow> string option \<Rightarrow> string option \<Rightarrow> string option \<Rightarrow>
   (string \<times> string) list \<Rightarrow> source \<Rightarrow> MovieResponse io" where
  "make_response ident title year ty genre_list actors director runtime plot poster ratings src =
     (case title of
        None \<Rightarrow> raise ValidationError
      | Some t \<Rightarrow>
          return \<lparr>m_id = ident, m_title = t, m_year = year, m_type = ty, m_genres = genre_list,
                  m_actors = actors, m_director = director, m_runtime = runtime, m_plot = plot,
                  m_poster_url = poster, m_ratings = ratings, m_source = src\<rparr>)"

text \<open>
  The poster URL built from the catalog's \<^verbatim>\<open>poster_path\<close>, or the given fallback
  when the path is empty.
\<close>

definition poster_url :: "raw_item \<Rightarrow> string option \<Rightarrow> string option" where
  "poster_url item fallback =
     (if truthy (i_poster_path item) then Some (poster_prefix @ the (i_poster_path item))
      else fallback)"

text \<open>
  \<^verbatim>\<open>item.get('title') or item.get('name') or ''\<close> and
  \<^verbatim>\<open>item.get('release_date') or item.get('first_air_date') or ''\<close>: the catalog's
  own title and date, the empty string when it has none.
\<close>

definition item_title :: "raw_item \<Rightarrow> string option" where
  "item_title item = py_or (py_or (i_title item) (i_name item)) (Some [])"

definition item_date :: "raw_item \<Rightarrow> string" where
  "item_date item = the (py_or (py_or (i_release_date item) (i_first_air_date item)) (Some []))"

definition map_to_movie ::
  "upstream \<Rightarrow> raw_item \<Rightarrow> endpoint \<Rightarrow> (int \<times> string) list \<Rightarrow> MovieSearchParams \<Rightarrow> MovieResponse io" where
  "map_to_movie w item media_type genres params =
     (let tmdb_id = i_id item;
          title = item_title item;
          date = item_date item
      in
      bind (year_of_date date) (\<lambda>year.
      let genre_list = map (\<lambda>g. the (dict_get genres g))
                         (filter (\<lambda>g. truthy (dict_get genres g)) (i_genre_ids item)) in
      bind (fetch_credits w media_type tmdb_id) (\<lambda>actors.
      bind (get_imdb_id w media_type tmdb_id) (\<lambda>imdb_id.
      bind (if truthy imdb_id then fetch_omdb_data w (the imdb_id) else return None) (\<lambda>omdb_payload.
      let ident = (if truthy imdb_id then the imdb_id else py_str_opt tmdb_id);
          ty = (case p_type params of
                  Some t \<Rightarrow> t
                | None \<Rightarrow> if media_type = Tv then Series else MovieType)
      in
      case omdb_payload of
        Some data \<Rightarrow>
          bind (if truthy_int year then return year
                else if truthy (o_Year data)
                  then bind (py_int (the (o_Year data))) (\<lambda>y. return (Some y))
                else return None) (\<lambda>year'.
          make_response ident (py_or title (o_Title data)) year' ty genre_list actors
            (o_Director data) (o_Runtime data) (o_Plot data)
            (poster_url item (o_Poster data)) (dict_of (o_Ratings data)) Merged)
      | None \<Rightarrow>
          make_response ident title year ty genre_list actors None None None
            (poster_url item None) [] TMDB)))))"

section \<open>The router and its strategies\<close>

text \<open>The \<^verbatim>\<open>for ep in endpoints\<close> loop of \<^verbatim>\<open>_search_by_title_only\<close>.\<close>

fun title_only_loop :: "upstream \<Rightarrow> MovieSearchParams \<Rightarrow> endpoint list \<Rightarrow> MovieResponse list \<Rightarrow> MovieResponse list io" where
  "title_only_loop w params [] movies = return movies"
| "title_only_loop w params (ep # eps) movies =
     bind (get_search_results w (p_title params) (ep = Tv)) (\<lambda>(results, endpoint).
     bind (fetch_genres w (ep = Tv)) (\<lambda>genres.
     bind (gather (map (\<lambda>item. map_to_movie w item endpoint genres params) results)) (\<lambda>mapped.
     title_only_loop w params eps (movies @ mapped))))"

definition search_by_title_only :: "upstream \<Rightarrow> MovieSearchParams \<Rightarrow> bool \<Rightarrow> MovieResponse list io" where
  "search_by_title_only w params is_series =
     (let endpoints = (if p_type params = None then [Tv, Movie]
                       else if is_series then [Tv] else [Movie])
      in title_only_loop w params endpoints [])"

definition search_by_title_with_filters :: "(string \<Rightarrow> string) \<Rightarrow> upstream \<Rightarrow> MovieSearchParams \<Rightarrow> bool \<Rightarrow> MovieResponse list io" where
  "search_by_title_with_filters lower w params is_series =
     bind (if truthy (p_actors params) \<and> is_series
           then discover_by_filters lower w (p_genre params) (p_actors params) is_series
           else get_search_results w (p_title params) is_series) (\<lambda>(data, endpoint).
     bind (fetch_genres w is_series) (\<lambda>genres.
     bind (gather (map (\<lambda>item. map_to_movie w item endpoint genres params) data)) (\<lambda>mapped.
     return (filter (\<lambda>m. matches lower m params) mapped))))"

definition search_by_filters_only :: "(string \<Rightarrow> string) \<Rightarrow> upstream \<Rightarrow> MovieSearchParams \<Rightarrow> bool \<Rightarrow> MovieResponse list io" where
  "search_by_filters_only lower w params is_series =
     bind (discover_by_filters lower w (p_genre params) (p_actors params) is_series) (\<lambda>(data, endpoint).
     bind (fetch_genres w is_series) (\<lambda>genres.
     bind (gather (map (\<lambda>item. map_to_movie w item endpoint genres params) data)) (\<lambda>mapped.
     return (filter (\<lambda>m. matches lower m params) mapped))))"

text \<open>
  \<^verbatim>\<open>_get_popular_fallback\<close>. The two popularity fetches of the first
  \<^verbatim>\<open>asyncio.gather\<close> read and write different keys of the store; they are run
  movie first, then series. \<^verbatim>\<open>results.sort(key=lambda m: m.title)\<close> is a stable
  sort by the title in the order of the characters' codes.
\<close>

definition get_popular_fallback :: "upstream \<Rightarrow> MovieSearchParams \<Rightarrow> MovieResponse list io" where
  "get_popular_fallback w params =
     bind (get_popular w False) (\<lambda>movie_pop.
     bind (get_popular w True) (\<lambda>tv_pop.
     let raw = map (\<lambda>i. (i, Movie)) movie_pop @ map (\<lambda>i. (i, Tv)) tv_pop in
     bind (fetch_genres w False) (\<lambda>genres_movie.
     bind (fetch_genres w True) (\<lambda>genres_tv.
     let genres_map = (\<lambda>t. if t = Movie then genres_movie else genres_tv) in
     bind (gather (map (\<lambda>(item, t). map_to_movie w item t (genres_map t) params) raw)) (\<lambda>results.
     let results' = (if \<not> truthy (p_title params) then sort_key m_title results else results)
     in return (take 20 results'))))))"

definition search_tmdb :: "(string \<Rightarrow> string) \<Rightarrow> upstream \<Rightarrow> MovieSearchParams \<Rightarrow> MovieResponse list io" where
  "search_tmdb lower w params =
     (let is_series = (p_type params = Some Series);
          has_title = truthy (p_title params);
          has_filters = (truthy (p_genre params) \<or> truthy (p_actors params) \<or> p_type params \<noteq> None)
      in
      if has_title \<and> \<not> has_filters then search_by_title_only w params is_series
      else if has_title \<and> has_filters then search_by_title_with_filters lower w params is_series
      else if has_filters then search_by_filters_only lower w params is_series
      else get_popular_fallback w params)"

text \<open>
  The route \<^verbatim>\<open>/movies/search\<close> of \<^verbatim>\<open>main.py\<close>: any exception of the search becomes
  an \<^verbatim>\<open>HTTPException\<close> with status 502, whose detail names the exception.
\<close>

datatype http_exception = HTTPException nat error

definition search_movies :: "(string \<Rightarrow> string) \<Rightarrow> upstream \<Rightarrow> MovieSearchParams \<Rightarrow> state \<Rightarrow> (http_exception + MovieResponse list) \<times> state" where
  "search_movies lower w params s =
     (case search_tmdb lower w params s of
        (Inl e, s') \<Rightarrow> (Inl (HTTPException 502 e), s')
      | (Inr movies, s') \<Rightarrow> (Inr movies, s'))"

section \<open>Vocabulary of the specification\<close>

text \<open>
  A cross-reference ID is resolved when the detail call answers 200 with a non-empty
  \<^verbatim>\<open>imdb_id\<close>; the enrichment lookup succeeds when OMDB answers 200 with the flag
  \<^verbatim>\<open>Response\<close> at \<^verbatim>\<open>'True'\<close>, and reports a failure when it answers
  with a JSON body otherwise.
\<close>

definition crossref_resolved :: "upstream \<Rightarrow> endpoint \<Rightarrow> int option \<Rightarrow> string \<Rightarrow> bool" where
  "crossref_resolved w media_type tmdb_id imdb_id =
     (api_detail w media_type tmdb_id = Response 200 (Some (Some imdb_id)) \<and> imdb_id \<noteq> [])"

definition enrichment_success :: "upstream \<Rightarrow> string \<Rightarrow> omdb_data \<Rightarrow> bool" where
  "enrichment_success w imdb_id data =
     (api_omdb w imdb_id = Response 200 (Some data) \<and> o_Response data = Some ''True'')"

definition enrichment_failure :: "upstream \<Rightarrow> string \<Rightarrow> bool" where
  "enrichment_failure w imdb_id =
     (\<exists>st data. api_omdb w imdb_id = Response st (Some data) \<and>
        \<not> (st = 200 \<and> o_Response data = Some ''True''))"

text \<open>
  The date the catalog gives: the release date of the item, or its first air date when it
  has no release date, and none when it has neither. The year the catalog gives: the
  integer before the first dash of that date, none when there is no date.
\<close>

definition catalog_date :: "raw_item \<Rightarrow> string option" where
  "catalog_date item =
     (if i_release_date item \<noteq> None \<and> i_release_date item \<noteq> Some [] then i_release_date item
      else if i_first_air_date item \<noteq> None \<and> i_first_air_date item \<noteq> Some []
        then i_first_air_date item
      else None)"

definition catalog_year :: "raw_item \<Rightarrow> int option" where
  "catalog_year item =
     (case catalog_date item of
        None \<Rightarrow> None
      | Some date \<Rightarrow> parse_int (takeWhile (\<lambda>c. c \<noteq> CHR ''-'') date))"

text \<open>
  A record is mapped from a raw item when the mapper, run on that item for the given
  endpoint, taxonomy and query, returns it.
\<close>

definition mapped_from ::
  "upstream \<Rightarrow> MovieSearchParams \<Rightarrow> (int \<times> string) list \<Rightarrow> endpoint \<Rightarrow> raw_item \<Rightarrow> MovieResponse \<Rightarrow> bool" where
  "mapped_from w params genres media_type item movie =
     (\<exists>s. fst (map_to_movie w item media_type genres params s) = Inr movie)"

text \<open>
  A genre resolves to an ID in a taxonomy when that ID is the key of the first entry, in
  the order of the taxonomy, whose name equals the genre up to case.

  The candidates of the actor-credit path of the series discovery, for a request that
  starts in a given state: the credit list of the first person found for the actor name
  and, when the genre is set and resolves in the series taxonomy that this state and the
  upstream give, only the credits that carry the resolved ID; no candidate when nobody is
  found.
\<close>

definition resolves_to :: "(string \<Rightarrow> string) \<Rightarrow> (int \<times> string) list \<Rightarrow> string \<Rightarrow> int \<Rightarrow> bool" where
  "resolves_to lower genres genre gid =
     (\<exists>k < length genres. fst (genres ! k) = gid \<and> ci_equal lower (snd (genres ! k)) genre \<and>
        (\<forall>j < k. \<not> ci_equal lower (snd (genres ! j)) genre))"

definition actor_credit_candidates ::
  "(string \<Rightarrow> string) \<Rightarrow> upstream \<Rightarrow> state \<Rightarrow> string option \<Rightarrow> string \<Rightarrow> raw_item list \<Rightarrow> bool" where
  "actor_credit_candidates lower w s genre actor data =
     (\<exists>st people. api_search_person w actor = Response st (Some people) \<and>
        (case people of
           [] \<Rightarrow> data = []
         | person # _ \<Rightarrow>
             (\<exists>st' credits. api_tv_credits w person = Response st' (Some credits) \<and>
                (if truthy genre then
                   (\<exists>genres. fst (fetch_genres w True s) = Inr genres \<and>
                      (if \<exists>gid. resolves_to lower genres (the genre) gid
                       then \<exists>gid. resolves_to lower genres (the genre) gid \<and>
                              data = filter (\<lambda>show. gid \<in> set (i_genre_ids show)) credits
                       else data = credits))
                 else data = credits))))"

text \<open>
  The filters a discovery call carries: the decimal text of the first genre ID whose name
  is the genre up to case, and the ID of the first person found for the actor name, each
  only when the filter is set and resolves. A status is a success between 200 and 299.
\<close>

definition with_genres_param :: "(string \<Rightarrow> string) \<Rightarrow> (int \<times> string) list \<Rightarrow> string option \<Rightarrow> string option" where
  "with_genres_param lower genres genre =
     (if truthy genre then map_option py_str (find_genre_id lower genres (the genre)) else None)"

definition with_cast_param :: "int option list \<Rightarrow> string option \<Rightarrow> string option" where
  "with_cast_param people actors =
     (if truthy actors then (case people of [] \<Rightarrow> None | person # _ \<Rightarrow> Some (py_str_opt person))
      else None)"

definition ok_status :: "nat \<Rightarrow> bool" where
  "ok_status st = (200 \<le> st \<and> st < 300)"

text \<open>
  Failures of upstream calls. A call fails in HTTP terms when it has a transport failure or
  a status outside 200..299: \<open>http_failure\<close> says so of every call to the catalog
  provider (the enrichment lookup is not one). \<open>fatal_failure\<close> is the same except for
  the detail call, for which it is the transport failure only. An effect propagates
  failures when every run of it that sent a request with a fatal failure ends in an error.
\<close>

fun failed :: "'a response \<Rightarrow> bool" where
  "failed NetworkError = True"
| "failed (Response st body) = (\<not> ok_status st)"

fun http_failure :: "upstream \<Rightarrow> request \<Rightarrow> bool" where
  "http_failure w (GenreList ep) = failed (api_genre_list w ep)"
| "http_failure w (Search ep title) = failed (api_search w ep title)"
| "http_failure w (SearchPerson name) = failed (api_search_person w name)"
| "http_failure w (Discover ep with_genres with_cast) = failed (api_discover w ep with_genres with_cast)"
| "http_failure w (PersonTvCredits person_id) = failed (api_tv_credits w person_id)"
| "http_failure w (Popular ep) = failed (api_popular w ep)"
| "http_failure w (Credits ep tmdb_id) = failed (api_credits w ep tmdb_id)"
| "http_failure w (Detail ep tmdb_id) = failed (api_detail w ep tmdb_id)"
| "http_failure w (Omdb imdb_id) = False"

fun fatal_failure :: "upstream \<Rightarrow> request \<Rightarrow> bool" where
  "fatal_failure w (Detail ep tmdb_id) = (api_detail w ep tmdb_id = NetworkError)"
| "fatal_failure w r = http_failure w r"

definition propagates :: "upstream \<Rightarrow> 'a io \<Rightarrow> bool" where
  "propagates w m =
     (\<forall>s. \<exists>new. calls (snd (m s)) = calls s @ new \<and>
                 ((\<exists>r \<in> set new. fatal_failure w r) \<longrightarrow> isl (fst (m s))))"

section \<open>A sample catalog\<close>

text \<open>
  The items and the enrichment payload of the repository's tests, served by an upstream
  in which only item 101 has a cross-reference ID, and a state with an empty cache.
\<close>

definition ex_item_a :: raw_item where
  "ex_item_a = \<lparr>i_id = Some 101, i_title = None, i_name = None, i_release_date = None,
     i_first_air_date = Some [], i_genre_ids = [35, 99], i_poster_path = Some ''/p.jpg''\<rparr>"

definition ex_item_b :: raw_item where
  "ex_item_b = \<lparr>i_id = Some 200, i_title = None, i_name = Some ''Show'', i_release_date = None,
     i_first_air_date = Some ''2011-04-17'', i_genre_ids = [18], i_poster_path = None\<rparr>"

definition ex_omdb :: omdb_data where
  "ex_omdb = \<lparr>o_Response = Some ''True'', o_Title = Some ''Override Title'', o_Year = Some ''1999'',
     o_Director = Some ''Dir Name'', o_Runtime = Some ''120 min'', o_Plot = Some ''Plot here'',
     o_Poster = Some ''OMDBPOSTER'', o_Ratings = [(''SourceA'', ''9/10'')]\<rparr>"

definition ex_world :: upstream where
  "ex_world = \<lparr>
     api_genre_list = (\<lambda>ep. Response 200 (Some [(18, ''Drama''), (35, ''Comedy'')])),
     api_search = (\<lambda>ep t. Response 200 (Some (if ep = Movie then [ex_item_a] else [ex_item_b]))),
     api_search_person = (\<lambda>n. Response 200 (Some (if n = ''Jane'' then [Some 7] else []))),
     api_discover = (\<lambda>ep g c. Response 200 (Some [ex_item_a])),
     api_tv_credits = (\<lambda>p. Response 200 (Some [ex_item_b, ex_item_a])),
     api_popular = (\<lambda>ep. Response 200 (Some (if ep = Movie then [ex_item_b, ex_item_a]
                                                    else [ex_item_b]))),
     api_credits = (\<lambda>ep i. Response 200 (Some [Some ''Jane Doe'', None])),
     api_detail = (\<lambda>ep i. if i = Some 101 then Response 200 (Some (Some ''tt123''))
                            else Response 404 None),
     api_omdb = (\<lambda>i. Response 200 (Some ex_omdb))\<rparr>"

text \<open>The sample upstream with an enrichment provider that knows no title.\<close>

definition ex_world_miss :: upstream where
  "ex_world_miss =
     ex_world\<lparr>api_omdb := (\<lambda>i. Response 200 (Some (ex_omdb\<lparr>o_Response := Some ''False''\<rparr>)))\<rparr>"

definition ex_state :: state where
  "ex_state = \<lparr>redis_genres = (\<lambda>ep. None), redis_popular = (\<lambda>ep. None), now = 0, calls = []\<rparr>"

definition no_params :: MovieSearchParams where
  "no_params = \<lparr>p_title = None, p_actors = None, p_type = None, p_genre = None\<rparr>"

text \<open>The records and queries of the sample catalog.\<close>

definition ex_record_a :: MovieResponse where
  "ex_record_a = \<lparr>m_id = ''tt123'', m_title = ''Override Title'', m_year = Some 1999,
     m_type = MovieType, m_genres = [''Comedy''], m_actors = [''Jane Doe''],
     m_director = Some ''Dir Name'', m_runtime = Some ''120 min'', m_plot = Some ''Plot here'',
     m_poster_url = Some ''https://image.tmdb.org/t/p/w500/p.jpg'',
     m_ratings = [(''SourceA'', ''9/10'')], m_source = Merged\<rparr>"

definition ex_record_b :: "media_type \<Rightarrow> MovieResponse" where
  "ex_record_b ty = \<lparr>m_id = ''200'', m_title = ''Show'', m_year = Some 2011,
     m_type = ty, m_genres = [''Drama''], m_actors = [''Jane Doe''],
     m_director = None, m_runtime = None, m_plot = None,
     m_poster_url = None, m_ratings = [], m_source = TMDB\<rparr>"

definition ex_query_title :: MovieSearchParams where
  "ex_query_title = \<lparr>p_title = Some ''Show'', p_actors = None, p_type = None, p_genre = None\<rparr>"

definition ex_query_actor :: MovieSearchParams where
  "ex_query_actor = \<lparr>p_title = Some ''Show'', p_actors = Some ''Jane'', p_type = Some Series,
     p_genre = Some ''Drama''\<rparr>"


text \<open>An item the catalog dates in the year 0, with the cross-reference ID of item 101.\<close>

definition ex_item_zero :: raw_item where
  "ex_item_zero = \<lparr>i_id = Some 101, i_title = Some ''Year Zero'', i_name = None,
     i_release_date = Some ''0000-01-01'', i_first_air_date = None, i_genre_ids = [35],
     i_poster_path = None\<rparr>"

definition ex_record_zero :: MovieResponse where
  "ex_record_zero = \<lparr>m_id = ''tt123'', m_title = ''Year Zero'', m_year = Some 1999,
     m_type = MovieType, m_genres = [''Comedy''], m_actors = [''Jane Doe''],
     m_director = Some ''Dir Name'', m_runtime = Some ''120 min'', m_plot = Some ''Plot here'',
     m_poster_url = Some ''OMDBPOSTER'',
     m_ratings = [(''SourceA'', ''9/10'')], m_source = Merged\<rparr>"

text \<open>The sample upstream with a taxonomy in which the genre Drama has the ID 0.\<close>

definition ex_world_zero :: upstream where
  "ex_world_zero =
     ex_world\<lparr>api_genre_list := (\<lambda>ep. Response 200 (Some [(0, ''Drama''), (35, ''Comedy'')]))\<rparr>"

text \<open>An upstream that is down: every request fails in transport.\<close>

definition ex_world_down :: upstream where
  "ex_world_down = \<lparr>
     api_genre_list = (\<lambda>ep. NetworkError),
     api_search = (\<lambda>ep t. NetworkError),
     api_search_person = (\<lambda>n. NetworkError),
     api_discover = (\<lambda>ep g c. NetworkError),
     api_tv_credits = (\<lambda>p. NetworkError),
     api_popular = (\<lambda>ep. NetworkError),
     api_credits = (\<lambda>ep i. NetworkError),
     api_detail = (\<lambda>ep i. NetworkError),
     api_omdb = (\<lambda>i. NetworkError)\<rparr>"

text \<open>The sample upstream with a credits endpoint that answers 500.\<close>

definition ex_world_no_credits :: upstream where
  "ex_world_no_credits = ex_world\<lparr>api_credits := (\<lambda>ep i. Response 500 None)\<rparr>"

section \<open>Properties of the primitives\<close>




section \<open>Effects\<close>

lemma bind_Inr_iff:
  "(bind m f s = (Inr y, s'')) = (\<exists>x s'. m s = (Inr x, s') \<and> f x s' = (Inr y, s''))"
  by (auto simp: bind_def split: prod.splits sum.splits)

lemma bind_Inl_iff:
  "(bind m f s = (Inl e, s'')) = (m s = (Inl e, s'') \<or> (\<exists>x s'. m s = (Inr x, s') \<and> f x s' = (Inl e, s'')))"
  by (auto simp: bind_def split: prod.splits sum.splits)

lemma return_iff: "(return x s = (r, s')) = (r = Inr x \<and> s' = s)"
  by (auto simp: return_def)

lemma raise_iff: "(raise e s = (r, s')) = (r = Inl e \<and> s' = s)"
  by (auto simp: raise_def)

lemma client_get_Inr_iff:
  "(client_get r resp s = (Inr x, s')) =
     (resp = Response (fst x) (snd x) \<and> s' = s\<lparr>calls := calls s @ [r]\<rparr>)"
  by (cases resp; cases x) (auto simp: client_get_def)

lemma raise_for_status_Inr_iff:
  "(raise_for_status r st s = (Inr u, s')) = (200 \<le> st \<and> st < 300 \<and> s' = s)"
  by (auto simp: raise_for_status_def return_def raise_def)

lemma json_Inr_iff: "(json r body s = (Inr x, s')) = (body = Some x \<and> s' = s)"
  by (cases body) (auto simp: json_def return_def raise_def)

lemma py_int_Inr_iff: "(py_int t s = (Inr i, s')) = (parse_int t = Some i \<and> s' = s)"
  by (cases "parse_int t") (auto simp: py_int_def return_def raise_def)

lemma fetch_credits_Inr:
  assumes "fetch_credits w ep tid s = (Inr a, s')"
  shows "\<exists>st cast. api_credits w ep tid = Response st (Some cast) \<and> 200 \<le> st \<and> st < 300 \<and>
           a = map the (filter truthy cast) \<and> s' = s\<lparr>calls := calls s @ [Credits ep tid]\<rparr>"
  using assms
  by (auto simp: fetch_credits_def bind_Inr_iff client_get_Inr_iff raise_for_status_Inr_iff
      json_Inr_iff return_iff)

lemma get_imdb_id_Inr:
  assumes "get_imdb_id w ep tid s = (Inr x, s')"
  shows "\<exists>st body. api_detail w ep tid = Response st body \<and>
           (if st = 200 then body = Some x else x = None) \<and>
           s' = s\<lparr>calls := calls s @ [Detail ep tid]\<rparr>"
  using assms
  by (auto simp: get_imdb_id_def bind_Inr_iff client_get_Inr_iff json_Inr_iff return_iff
      split: if_splits)

lemma fetch_omdb_data_Inr:
  assumes "fetch_omdb_data w iid s = (Inr x, s')"
  shows "\<exists>st data. api_omdb w iid = Response st (Some data) \<and>
           x = (if st = 200 \<and> o_Response data = Some ''True'' then Some data else None) \<and>
           s' = s\<lparr>calls := calls s @ [Omdb iid]\<rparr>"
  using assms
  by (auto simp: fetch_omdb_data_def bind_Inr_iff client_get_Inr_iff json_Inr_iff return_iff
      split: if_splits)

lemma make_response_Inr_iff:
  "(make_response ident title year ty gl actors director runtime plot poster ratings src s = (Inr r, s')) =
     (\<exists>t. title = Some t \<and> s' = s \<and>
        r = \<lparr>m_id = ident, m_title = t, m_year = year, m_type = ty, m_genres = gl,
             m_actors = actors, m_director = director, m_runtime = runtime, m_plot = plot,
             m_poster_url = poster, m_ratings = ratings, m_source = src\<rparr>)"
  by (cases title) (auto simp: make_response_def return_def raise_def)

lemma year_of_date_Inr_iff:
  "(year_of_date d s = (Inr y, s')) =
     (s' = s \<and> (if d = [] then y = None
                else y \<noteq> None \<and> parse_int (takeWhile (\<lambda>c. c \<noteq> CHR ''-'') d) = y))"
  by (auto simp: year_of_date_def return_iff bind_Inr_iff py_int_Inr_iff)

lemma map_to_movie_InrE:
  assumes "map_to_movie w item ep genres q s = (Inr r, s')"
  obtains year a imdb payload s1 s2 s3 s4 where
    "year_of_date (item_date item) s = (Inr year, s1)"
    "fetch_credits w ep (i_id item) s1 = (Inr a, s2)"
    "get_imdb_id w ep (i_id item) s2 = (Inr imdb, s3)"
    "truthy imdb \<Longrightarrow> fetch_omdb_data w (the imdb) s3 = (Inr payload, s4)"
    "\<not> truthy imdb \<Longrightarrow> payload = None"
    "m_id r = (if truthy imdb then the imdb else py_str_opt (i_id item))"
    "m_type r = (case p_type q of Some t \<Rightarrow> t | None \<Rightarrow> if ep = Tv then Series else MovieType)"
    "m_actors r = a"
    "m_genres r = map (\<lambda>g. the (dict_get genres g))
                    (filter (\<lambda>g. truthy (dict_get genres g)) (i_genre_ids item))"
    "payload = None \<Longrightarrow>
       m_source r = TMDB \<and> m_ratings r = [] \<and> m_director r = None \<and> m_runtime r = None \<and>
       m_plot r = None \<and> m_year r = year \<and> Some (m_title r) = item_title item \<and>
       m_poster_url r = poster_url item None"
    "\<And>data. payload = Some data \<Longrightarrow>
       m_source r = Merged \<and> m_ratings r = dict_of (o_Ratings data) \<and>
       m_director r = o_Director data \<and> m_runtime r = o_Runtime data \<and>
       m_plot r = o_Plot data \<and> Some (m_title r) = py_or (item_title item) (o_Title data) \<and>
       m_poster_url r = poster_url item (o_Poster data) \<and>
       (truthy_int year \<longrightarrow> m_year r = year) \<and>
       (\<not> truthy_int year \<and> truthy (o_Year data) \<longrightarrow>
          m_year r \<noteq> None \<and> m_year r = parse_int (the (o_Year data))) \<and>
       (\<not> truthy_int year \<and> \<not> truthy (o_Year data) \<longrightarrow> m_year r = None)"
proof -
  from assms obtain year s1 a s2 imdb s3 payload s4 where
    y: "year_of_date (item_date item) s = (Inr year, s1)" and
    c: "fetch_credits w ep (i_id item) s1 = (Inr a, s2)" and
    i: "get_imdb_id w ep (i_id item) s2 = (Inr imdb, s3)" and
    o: "(if truthy imdb then fetch_omdb_data w (the imdb) else return None) s3 = (Inr payload, s4)" and
    fin: "(case payload of
        Some data \<Rightarrow>
          bind (if truthy_int year then return year
                else if truthy (o_Year data)
                  then bind (py_int (the (o_Year data))) (\<lambda>y. return (Some y))
                else return None) (\<lambda>year'.
          make_response (if truthy imdb then the imdb else py_str_opt (i_id item))
            (py_or (item_title item) (o_Title data)) year'
            (case p_type q of Some t \<Rightarrow> t | None \<Rightarrow> if ep = Tv then Series else MovieType)
            (map (\<lambda>g. the (dict_get genres g))
                    (filter (\<lambda>g. truthy (dict_get genres g)) (i_genre_ids item))) a
            (o_Director data) (o_Runtime data) (o_Plot data)
            (poster_url item (o_Poster data)) (dict_of (o_Ratings data)) Merged)
      | None \<Rightarrow>
          make_response (if truthy imdb then the imdb else py_str_opt (i_id item))
            (item_title item) year
            (case p_type q of Some t \<Rightarrow> t | None \<Rightarrow> if ep = Tv then Series else MovieType)
            (map (\<lambda>g. the (dict_get genres g))
                    (filter (\<lambda>g. truthy (dict_get genres g)) (i_genre_ids item))) a
            None None None
            (poster_url item None) [] TMDB) s4 = (Inr r, s')"
    unfolding map_to_movie_def Let_def bind_Inr_iff by blast
  have o1: "truthy imdb \<Longrightarrow> fetch_omdb_data w (the imdb) s3 = (Inr payload, s4)"
    using o by (simp split: if_splits)
  have o2: "\<not> truthy imdb \<Longrightarrow> payload = None"
    using o by (simp add: return_iff split: if_splits)
  have common: "m_id r = (if truthy imdb then the imdb else py_str_opt (i_id item)) \<and>
    m_type r = (case p_type q of Some t \<Rightarrow> t | None \<Rightarrow> if ep = Tv then Series else MovieType) \<and>
    m_actors r = a \<and>
    m_genres r = map (\<lambda>g. the (dict_get genres g))
                    (filter (\<lambda>g. truthy (dict_get genres g)) (i_genre_ids item))"
  proof (cases payload)
    case None
    with fin show ?thesis by (auto simp: make_response_Inr_iff)
  next
    case (Some data)
    with fin show ?thesis by (auto simp: bind_Inr_iff make_response_Inr_iff)
  qed
  have pn: "payload = None \<Longrightarrow>
       m_source r = TMDB \<and> m_ratings r = [] \<and> m_director r = None \<and> m_runtime r = None \<and>
       m_plot r = None \<and> m_year r = year \<and> Some (m_title r) = item_title item \<and>
       m_poster_url r = poster_url item None"
    using fin by (auto simp: make_response_Inr_iff)
  have ps: "payload = Some data \<Longrightarrow>
       m_source r = Merged \<and> m_ratings r = dict_of (o_Ratings data) \<and>
       m_director r = o_Director data \<and> m_runtime r = o_Runtime data \<and>
       m_plot r = o_Plot data \<and> Some (m_title r) = py_or (item_title item) (o_Title data) \<and>
       m_poster_url r = poster_url item (o_Poster data) \<and>
       (truthy_int year \<longrightarrow> m_year r = year) \<and>
       (\<not> truthy_int year \<and> truthy (o_Year data) \<longrightarrow>
          m_year r \<noteq> None \<and> m_year r = parse_int (the (o_Year data))) \<and>
       (\<not> truthy_int year \<and> \<not> truthy (o_Year data) \<longrightarrow> m_year r = None)" for data
  proof -
    assume p: "payload = Some data"
    from fin[unfolded p option.case bind_Inr_iff] obtain year' sx where
      yy: "(if truthy_int year then return year
                else if truthy (o_Year data)
                  then bind (py_int (the (o_Year data))) (\<lambda>y. return (Some y))
                else return None) s4 = (Inr year', sx)" and
      mk: "make_response (if truthy imdb then the imdb else py_str_opt (i_id item))
            (py_or (item_title item) (o_Title data)) year'
            (case p_type q of Some t \<Rightarrow> t | None \<Rightarrow> if ep = Tv then Series else MovieType)
            (map (\<lambda>g. the (dict_get genres g))
                    (filter (\<lambda>g. truthy (dict_get genres g)) (i_genre_ids item))) a
            (o_Director data) (o_Runtime data) (o_Plot data)
            (poster_url item (o_Poster data)) (dict_of (o_Ratings data)) Merged sx = (Inr r, s')"
      by blast
    have y1: "truthy_int year \<longrightarrow> year' = year"
      using yy by (auto simp: return_iff split: if_splits)
    have y2: "\<not> truthy_int year \<and> truthy (o_Year data) \<longrightarrow>
                year' \<noteq> None \<and> year' = parse_int (the (o_Year data))"
      using yy by (auto simp: return_iff bind_Inr_iff py_int_Inr_iff split: if_splits)
    have y3: "\<not> truthy_int year \<and> \<not> truthy (o_Year data) \<longrightarrow> year' = None"
      using yy by (auto simp: return_iff split: if_splits)
    from mk have "m_source r = Merged \<and> m_ratings r = dict_of (o_Ratings data) \<and>
       m_director r = o_Director data \<and> m_runtime r = o_Runtime data \<and>
       m_plot r = o_Plot data \<and> Some (m_title r) = py_or (item_title item) (o_Title data) \<and>
       m_poster_url r = poster_url item (o_Poster data) \<and> m_year r = year'"
      by (auto simp: make_response_Inr_iff)
    with y1 y2 y3 show ?thesis by auto
  qed
  from that[OF y c i o1 o2] common pn ps show thesis by blast
qed

lemma fst_run: "fst p = Inr r \<Longrightarrow> \<exists>s'. p = (Inr r, s')"
  by (cases p) auto

section \<open>Properties of case folding\<close>

lemma upper_range:
  "(CHR ''A'' \<le> c) = (65 \<le> (of_char c :: nat))"
  "(c \<le> CHR ''Z'') = ((of_char c :: nat) \<le> 90)"
  by (simp_all add: less_eq_char_def)

lemma char_eq_nat: "(c = d) = ((of_char c :: nat) = of_char d)"
  by simp

lemma of_char_lt: "(of_char c :: nat) < 256"
  by simp

lemma ascii_lower_char_nat:
  "(of_char (ascii_lower_char c) :: nat) =
     (if 65 \<le> (of_char c :: nat) \<and> (of_char c :: nat) \<le> 90 then of_char c + 32 else of_char c)"
  by (simp add: ascii_lower_char_def upper_range)

lemma ascii_lower_char_eq_iff:
  "(ascii_lower_char c = ascii_lower_char d) = same_letter c d"
proof -
  have "(ascii_lower_char c = ascii_lower_char d) =
        ((of_char (ascii_lower_char c) :: nat) = of_char (ascii_lower_char d))"
    by (rule char_eq_nat)
  also have "\<dots> = same_letter c d"
    unfolding ascii_lower_char_nat same_letter_def upper_range char_eq_nat[of c d]
    by auto
  finally show ?thesis .
qed

lemma ascii_lower_eq_iff: "(ascii_lower a = ascii_lower b) = list_all2 same_letter a b"
proof (induction a arbitrary: b)
  case Nil
  show ?case by (simp add: ascii_lower_def)
next
  case (Cons x xs)
  show ?case
  proof (cases b)
    case Nil
    then show ?thesis by (simp add: ascii_lower_def)
  next
    case (Cons y ys)
    with Cons.IH[of ys] show ?thesis
      by (simp add: ascii_lower_def ascii_lower_char_eq_iff)
  qed
qed

lemma is_ascii_append: "is_ascii (a @ b) = (is_ascii a \<and> is_ascii b)"
  by (auto simp: is_ascii_def)


lemma ci_equal_lower:
  assumes "python_lower lower"
  shows "ci_equal lower a b = (lower a = lower b)"
  using assms by (simp add: ci_equal_def python_lower_def ascii_lower_eq_iff)


lemma python_lower_ascii: "python_lower ascii_lower"
  by (simp add: python_lower_def)

section \<open>Claims about the match filter\<close>



section \<open>Properties of dictionaries and dates\<close>

lemma map_of_foldl_update:
  "map_of (foldl (\<lambda>d (k, v). AList.update k v d) d kvs) = map_of d ++ map_of (rev kvs)"
proof (induction kvs arbitrary: d)
  case Nil
  show ?case by simp
next
  case (Cons p ps)
  obtain k v where p: "p = (k, v)" by (cases p)
  have "map_of (AList.update k v d) = (map_of d)(k \<mapsto> v)" by (rule update_conv')
  then show ?case using Cons.IH[of "AList.update k v d"] p
    by (simp add: map_add_def fun_eq_iff split: option.splits)
qed

lemma map_of_dict_of: "map_of (dict_of kvs) = map_of (rev kvs)"
  by (simp add: dict_of_def map_of_foldl_update)

lemma catalog_date_item_date:
  "catalog_date item = (if item_date item = [] then None else Some (item_date item))"
  by (cases "i_release_date item"; cases "i_first_air_date item")
     (auto simp: catalog_date_def item_date_def py_or_def)

lemma year_of_date_catalog_year:
  "year_of_date (item_date item) s = (Inr year, s1) \<Longrightarrow> year = catalog_year item"
  by (auto simp: year_of_date_Inr_iff catalog_year_def catalog_date_item_date split: if_splits)

lemma item_title_fields:
  "py_or (item_title item) other =
     (if truthy (i_title item) then i_title item
      else if truthy (i_name item) then i_name item else other)"
  by (simp add: item_title_def py_or_def)

section \<open>Claims about the record mapper\<close>

text \<open>
  C10. For every raw catalog item and every query whose media type is set, the record the
  mapper produces carries exactly the query's media type, whichever endpoint produced the
  item; so the media type comparison of the match filter never excludes a record mapped
  with that same query: \<open>matches\<close> decides as it would with no media type in the query.
\<close>

theorem mapper_carries_query_type:
  assumes "fst (map_to_movie w item media_type genres params s) = Inr movie"
    and "p_type params = Some t"
  shows "m_type movie = t \<and> matches lower movie params = matches lower movie (params\<lparr>p_type := None\<rparr>)"
proof -
  from fst_run[OF assms(1)] obtain s' where
    run: "map_to_movie w item media_type genres params s = (Inr movie, s')" ..
  have ty: "m_type movie = t"
  proof (rule map_to_movie_InrE[OF run])
    assume "m_type movie = (case p_type params of Some t \<Rightarrow> t
                            | None \<Rightarrow> if media_type = Tv then Series else MovieType)"
    then show ?thesis using assms(2) by simp
  qed
  have "matches lower movie params = matches lower movie (params\<lparr>p_type := None\<rparr>)"
    unfolding matches_def using ty assms(2) by simp
  with ty show ?thesis by simp
qed

theorem mapper_carries_query_type_witness:
  "m_type \<lparr>m_id = ''tt123'', m_title = ''Override Title'', m_year = Some 1999,
         m_type = Series, m_genres = [''Comedy''],
         m_actors = [''Jane Doe''], m_director = Some ''Dir Name'',
         m_runtime = Some ''120 min'', m_plot = Some ''Plot here'',
         m_poster_url = Some ''https://image.tmdb.org/t/p/w500/p.jpg'',
         m_ratings = [(''SourceA'', ''9/10'')], m_source = Merged\<rparr> = Series"
proof -
  have run: "fst (map_to_movie ex_world ex_item_a Movie [(35, ''Comedy'')]
               (no_params\<lparr>p_type := Some Series\<rparr>) ex_state) =
    Inr \<lparr>m_id = ''tt123'', m_title = ''Override Title'', m_year = Some 1999,
         m_type = Series, m_genres = [''Comedy''],
         m_actors = [''Jane Doe''], m_director = Some ''Dir Name'',
         m_runtime = Some ''120 min'', m_plot = Some ''Plot here'',
         m_poster_url = Some ''https://image.tmdb.org/t/p/w500/p.jpg'',
         m_ratings = [(''SourceA'', ''9/10'')], m_source = Merged\<rparr>"
    by code_simp
  have ty: "p_type (no_params\<lparr>p_type := Some Series\<rparr>) = Some Series" by simp
  from mapper_carries_query_type[OF run ty] show ?thesis by blast
qed

text \<open>
  C4, as amended. For every record the mapper produces: its provenance is \<open>Merged\<close> if
  and only if a cross-reference ID was resolved and the enrichment lookup returned a
  successful payload; a record of provenance \<open>TMDB\<close> (primary only) has an empty ratings
  map and no director, runtime or plot; when no cross-reference ID resolves the provenance
  is \<open>TMDB\<close> and the id is the catalog's own ID rendered as a string; when an ID resolves
  and the enrichment lookup reports a failure the provenance is \<open>TMDB\<close> and the id is the
  cross-reference ID.
\<close>

theorem mapper_provenance:
  assumes "fst (map_to_movie w item media_type genres params s) = Inr movie"
  shows "((m_source movie = Merged) =
            (\<exists>imdb_id data. crossref_resolved w media_type (i_id item) imdb_id \<and>
                            enrichment_success w imdb_id data)) \<and>
         (m_source movie = TMDB \<longrightarrow>
            m_ratings movie = [] \<and> m_director movie = None \<and> m_runtime movie = None \<and>
            m_plot movie = None) \<and>
         ((\<forall>imdb_id. \<not> crossref_resolved w media_type (i_id item) imdb_id) \<longrightarrow>
            m_source movie = TMDB \<and> m_id movie = py_str_opt (i_id item)) \<and>
         (\<forall>imdb_id. crossref_resolved w media_type (i_id item) imdb_id \<and>
                     enrichment_failure w imdb_id \<longrightarrow>
            m_source movie = TMDB \<and> m_id movie = imdb_id)"
proof -
  from fst_run[OF assms] obtain s' where
    run: "map_to_movie w item media_type genres params s = (Inr movie, s')" ..
  show ?thesis
  proof (rule map_to_movie_InrE[OF run])
    fix year a imdb payload s1 s2 s3 s4
    assume im: "get_imdb_id w media_type (i_id item) s2 = (Inr imdb, s3)"
      and om: "truthy imdb \<Longrightarrow> fetch_omdb_data w (the imdb) s3 = (Inr payload, s4)"
      and nom: "\<not> truthy imdb \<Longrightarrow> payload = None"
      and ident: "m_id movie = (if truthy imdb then the imdb else py_str_opt (i_id item))"
      and pn: "payload = None \<Longrightarrow>
         m_source movie = TMDB \<and> m_ratings movie = [] \<and> m_director movie = None \<and>
         m_runtime movie = None \<and> m_plot movie = None \<and> m_year movie = year \<and>
         Some (m_title movie) = item_title item \<and> m_poster_url movie = poster_url item None"
      and ps: "\<And>data. payload = Some data \<Longrightarrow>
         m_source movie = Merged \<and> m_ratings movie = dict_of (o_Ratings data) \<and>
         m_director movie = o_Director data \<and> m_runtime movie = o_Runtime data \<and>
         m_plot movie = o_Plot data \<and> Some (m_title movie) = py_or (item_title item) (o_Title data) \<and>
         m_poster_url movie = poster_url item (o_Poster data) \<and>
         (truthy_int year \<longrightarrow> m_year movie = year) \<and>
         (\<not> truthy_int year \<and> truthy (o_Year data) \<longrightarrow>
            m_year movie \<noteq> None \<and> m_year movie = parse_int (the (o_Year data))) \<and>
         (\<not> truthy_int year \<and> \<not> truthy (o_Year data) \<longrightarrow> m_year movie = None)"
    from get_imdb_id_Inr[OF im] obtain st body where
      det: "api_detail w media_type (i_id item) = Response st body"
        "if st = 200 then body = Some imdb else imdb = None" by blast
    have resolved: "crossref_resolved w media_type (i_id item) x = (imdb = Some x \<and> x \<noteq> [])" for x
      using det by (auto simp: crossref_resolved_def split: if_splits)
    have src: "m_source movie = Merged \<longleftrightarrow> payload \<noteq> None"
      using pn ps by (cases payload) auto
    have tm: "m_source movie = TMDB \<longleftrightarrow> payload = None"
      using pn ps by (cases payload) auto
    have payload_iff: "payload = Some data \<longleftrightarrow> (truthy imdb \<and> enrichment_success w (the imdb) data)" for data
    proof (cases "truthy imdb")
      case True
      from fetch_omdb_data_Inr[OF om[OF True]] True show ?thesis
        by (auto simp: enrichment_success_def split: if_splits)
    next
      case False
      with nom show ?thesis by simp
    qed
    have fail: "payload = None" if t: "truthy imdb" and f: "enrichment_failure w (the imdb)"
      using fetch_omdb_data_Inr[OF om[OF t]] f by (auto simp: enrichment_failure_def split: if_splits)
    have c1: "(m_source movie = Merged) =
              (\<exists>imdb_id data. crossref_resolved w media_type (i_id item) imdb_id \<and>
                              enrichment_success w imdb_id data)"
    proof
      assume "m_source movie = Merged"
      then obtain data where "payload = Some data" using src by auto
      then have "truthy imdb" "enrichment_success w (the imdb) data" using payload_iff by auto
      then show "\<exists>imdb_id data. crossref_resolved w media_type (i_id item) imdb_id \<and>
                              enrichment_success w imdb_id data"
        using resolved by (cases imdb) auto
    next
      assume "\<exists>imdb_id data. crossref_resolved w media_type (i_id item) imdb_id \<and>
                              enrichment_success w imdb_id data"
      then obtain x data where "imdb = Some x" "x \<noteq> []" "enrichment_success w x data"
        using resolved by auto
      then have "payload = Some data" using payload_iff by auto
      then show "m_source movie = Merged" using src by simp
    qed
    have c2: "m_source movie = TMDB \<longrightarrow>
              m_ratings movie = [] \<and> m_director movie = None \<and> m_runtime movie = None \<and>
              m_plot movie = None"
      using pn tm by auto
    have c3: "(\<forall>imdb_id. \<not> crossref_resolved w media_type (i_id item) imdb_id) \<longrightarrow>
              m_source movie = TMDB \<and> m_id movie = py_str_opt (i_id item)"
    proof
      assume "\<forall>imdb_id. \<not> crossref_resolved w media_type (i_id item) imdb_id"
      then have nt: "\<not> truthy imdb" using resolved by (cases imdb) auto
      with nom have "payload = None" by simp
      with tm ident nt show "m_source movie = TMDB \<and> m_id movie = py_str_opt (i_id item)" by simp
    qed
    have c4: "\<forall>imdb_id. crossref_resolved w media_type (i_id item) imdb_id \<and>
                       enrichment_failure w imdb_id \<longrightarrow>
              m_source movie = TMDB \<and> m_id movie = imdb_id"
    proof (intro allI impI)
      fix x assume "crossref_resolved w media_type (i_id item) x \<and> enrichment_failure w x"
      then have x: "imdb = Some x" "x \<noteq> []" "enrichment_failure w x" using resolved by auto
      then have "payload = None" using fail by simp
      with tm ident x show "m_source movie = TMDB \<and> m_id movie = x" by simp
    qed
    from c1 c2 c3 c4 show ?thesis by blast
  qed
qed



theorem mapper_provenance_witness:
  "(\<exists>imdb_id data. crossref_resolved ex_world Movie (i_id ex_item_a) imdb_id \<and>
                   enrichment_success ex_world imdb_id data)
   \<and> m_source \<lparr>m_id = ''200'', m_title = ''Show'', m_year = Some 2011,
        m_type = Series, m_genres = [''Drama''], m_actors = [''Jane Doe''],
        m_director = None, m_runtime = None, m_plot = None,
        m_poster_url = None, m_ratings = [], m_source = TMDB\<rparr> = TMDB
   \<and> py_str_opt (i_id ex_item_b) = ''200''"
proof -
  have run_a: "fst (map_to_movie ex_world ex_item_a Movie [(35, ''Comedy'')] no_params ex_state) =
    Inr \<lparr>m_id = ''tt123'', m_title = ''Override Title'', m_year = Some 1999,
         m_type = MovieType, m_genres = [''Comedy''],
         m_actors = [''Jane Doe''], m_director = Some ''Dir Name'',
         m_runtime = Some ''120 min'', m_plot = Some ''Plot here'',
         m_poster_url = Some ''https://image.tmdb.org/t/p/w500/p.jpg'',
         m_ratings = [(''SourceA'', ''9/10'')], m_source = Merged\<rparr>"
    by code_simp
  have run_b: "fst (map_to_movie ex_world ex_item_b Tv [(18, ''Drama'')] no_params ex_state) =
    Inr \<lparr>m_id = ''200'', m_title = ''Show'', m_year = Some 2011,
        m_type = Series, m_genres = [''Drama''], m_actors = [''Jane Doe''],
        m_director = None, m_runtime = None, m_plot = None,
        m_poster_url = None, m_ratings = [], m_source = TMDB\<rparr>"
    by code_simp
  have unresolved: "\<forall>imdb_id. \<not> crossref_resolved ex_world Tv (i_id ex_item_b) imdb_id"
    by (simp add: crossref_resolved_def ex_world_def ex_item_b_def)
  from mapper_provenance[OF run_a] mapper_provenance[OF run_b] unresolved
  show ?thesis by simp
qed

text \<open>
  The claim as first stated gives the catalog's own ID to every record whose enrichment
  failed. Item 101 has the cross-reference ID \<^verbatim>\<open>tt123\<close>; when the enrichment
  provider answers \<^verbatim>\<open>Response: False\<close> the record is primary only and its id is
  \<^verbatim>\<open>tt123\<close>, not \<^verbatim>\<open>101\<close>.
\<close>

theorem mapper_enrichment_failure_id_counterexample:
  "enrichment_failure ex_world_miss ''tt123''
   \<and> fst (map_to_movie ex_world_miss ex_item_a Movie [(35, ''Comedy'')] no_params ex_state) =
       Inr \<lparr>m_id = ''tt123'', m_title = [], m_year = None,
         m_type = MovieType, m_genres = [''Comedy''],
         m_actors = [''Jane Doe''], m_director = None, m_runtime = None, m_plot = None,
         m_poster_url = Some ''https://image.tmdb.org/t/p/w500/p.jpg'',
         m_ratings = [], m_source = TMDB\<rparr>
   \<and> py_str_opt (i_id ex_item_a) = ''101''
   \<and> ''tt123'' \<noteq> ''101''"
proof -
  have f: "enrichment_failure ex_world_miss ''tt123''"
    by (simp add: enrichment_failure_def ex_world_miss_def ex_world_def ex_omdb_def)
  have r: "fst (map_to_movie ex_world_miss ex_item_a Movie [(35, ''Comedy'')] no_params ex_state) =
       Inr \<lparr>m_id = ''tt123'', m_title = [], m_year = None,
         m_type = MovieType, m_genres = [''Comedy''],
         m_actors = [''Jane Doe''], m_director = None, m_runtime = None, m_plot = None,
         m_poster_url = Some ''https://image.tmdb.org/t/p/w500/p.jpg'',
         m_ratings = [], m_source = TMDB\<rparr>"
    by code_simp
  have i: "py_str_opt (i_id ex_item_a) = ''101''" by code_simp
  from f r i show ?thesis by simp
qed

text \<open>
  C5, as amended. For every raw catalog item and every successful enrichment payload, the
  record takes director, runtime and plot from the payload; its ratings map is the dict of
  the payload's rating list, source name to value string (the last entry of a source
  wins); the poster URL is built from the catalog poster path whenever that is non-empty,
  and is the enrichment poster otherwise; the title is the catalog's title, or its name
  when it has no title, and comes from the payload only when both are empty; the year
  comes from the payload only when the catalog gives no year or gives the year \<open>0\<close>.
\<close>

theorem mapper_merges_enrichment:
  assumes "fst (map_to_movie w item media_type genres params s) = Inr movie"
    and "crossref_resolved w media_type (i_id item) imdb_id"
    and "enrichment_success w imdb_id data"
  shows "m_source movie = Merged \<and>
         m_director movie = o_Director data \<and> m_runtime movie = o_Runtime data \<and>
         m_plot movie = o_Plot data \<and>
         m_ratings movie = dict_of (o_Ratings data) \<and>
         map_of (m_ratings movie) = map_of (rev (o_Ratings data)) \<and>
         m_poster_url movie =
           (if truthy (i_poster_path item) then Some (poster_prefix @ the (i_poster_path item))
            else o_Poster data) \<and>
         Some (m_title movie) =
           (if truthy (i_title item) then i_title item
            else if truthy (i_name item) then i_name item
            else o_Title data) \<and>
         m_year movie =
           (if catalog_year item = None \<or> catalog_year item = Some 0
            then (if truthy (o_Year data) then parse_int (the (o_Year data)) else None)
            else catalog_year item)"
proof -
  from fst_run[OF assms(1)] obtain s' where
    run: "map_to_movie w item media_type genres params s = (Inr movie, s')" ..
  show ?thesis
  proof (rule map_to_movie_InrE[OF run])
    fix year a imdb payload s1 s2 s3 s4
    assume yr: "year_of_date (item_date item) s = (Inr year, s1)"
      and im: "get_imdb_id w media_type (i_id item) s2 = (Inr imdb, s3)"
      and om: "truthy imdb \<Longrightarrow> fetch_omdb_data w (the imdb) s3 = (Inr payload, s4)"
      and ps: "\<And>data. payload = Some data \<Longrightarrow>
         m_source movie = Merged \<and> m_ratings movie = dict_of (o_Ratings data) \<and>
         m_director movie = o_Director data \<and> m_runtime movie = o_Runtime data \<and>
         m_plot movie = o_Plot data \<and> Some (m_title movie) = py_or (item_title item) (o_Title data) \<and>
         m_poster_url movie = poster_url item (o_Poster data) \<and>
         (truthy_int year \<longrightarrow> m_year movie = year) \<and>
         (\<not> truthy_int year \<and> truthy (o_Year data) \<longrightarrow>
            m_year movie \<noteq> None \<and> m_year movie = parse_int (the (o_Year data))) \<and>
         (\<not> truthy_int year \<and> \<not> truthy (o_Year data) \<longrightarrow> m_year movie = None)"
    have y: "year = catalog_year item" by (rule year_of_date_catalog_year[OF yr])
    have ty: "truthy_int (catalog_year item) =
                (\<not> (catalog_year item = None \<or> catalog_year item = Some 0))"
      by (cases "catalog_year item") simp_all
    from get_imdb_id_Inr[OF im] assms(2) have imdb: "imdb = Some imdb_id" "truthy imdb"
      by (auto simp: crossref_resolved_def split: if_splits)
    from fetch_omdb_data_Inr[OF om[OF imdb(2)]] assms(3) imdb(1) have "payload = Some data"
      by (auto simp: enrichment_success_def)
    from ps[OF this] have
      fields: "m_source movie = Merged" "m_ratings movie = dict_of (o_Ratings data)"
        "m_director movie = o_Director data" "m_runtime movie = o_Runtime data"
        "m_plot movie = o_Plot data" and
      title: "Some (m_title movie) = py_or (item_title item) (o_Title data)" and
      poster: "m_poster_url movie = poster_url item (o_Poster data)" and
      y1: "truthy_int year \<longrightarrow> m_year movie = year" and
      y2: "\<not> truthy_int year \<and> truthy (o_Year data) \<longrightarrow> m_year movie = parse_int (the (o_Year data))" and
      y3: "\<not> truthy_int year \<and> \<not> truthy (o_Year data) \<longrightarrow> m_year movie = None"
      by simp_all
    from y1 y2 y3 have yy: "m_year movie =
           (if catalog_year item = None \<or> catalog_year item = Some 0
            then (if truthy (o_Year data) then parse_int (the (o_Year data)) else None)
            else catalog_year item)"
      unfolding y ty by auto
    from fields title poster yy show ?thesis
      by (simp add: map_of_dict_of item_title_fields poster_url_def)
  qed
qed

theorem mapper_merges_enrichment_witness:
  "m_title ex_record_a = ''Override Title'' \<and> m_year ex_record_a = Some 1999
   \<and> crossref_resolved ex_world Movie (i_id ex_item_a) ''tt123''
   \<and> enrichment_success ex_world ''tt123'' ex_omdb
   \<and> \<not> truthy (i_title ex_item_a) \<and> \<not> truthy (i_name ex_item_a)
   \<and> o_Title ex_omdb = Some ''Override Title''
   \<and> catalog_year ex_item_a = None \<and> o_Year ex_omdb = Some ''1999''"
proof -
  have run: "fst (map_to_movie ex_world ex_item_a Movie [(35, ''Comedy'')] no_params ex_state) =
    Inr ex_record_a"
    by code_simp
  have cr: "crossref_resolved ex_world Movie (i_id ex_item_a) ''tt123''"
    by (simp add: crossref_resolved_def ex_world_def ex_item_a_def)
  have en: "enrichment_success ex_world ''tt123'' ex_omdb"
    by (simp add: enrichment_success_def ex_world_def ex_omdb_def)
  have t: "\<not> truthy (i_title ex_item_a)" "\<not> truthy (i_name ex_item_a)"
    "o_Title ex_omdb = Some ''Override Title''" "o_Year ex_omdb = Some ''1999''"
    by (simp_all add: ex_item_a_def ex_omdb_def)
  have cy: "catalog_year ex_item_a = None"
    by (simp add: catalog_year_def catalog_date_def ex_item_a_def)
  have p: "parse_int ''1999'' = Some 1999" by code_simp
  from mapper_merges_enrichment[OF run cr en] cr en t cy p show ?thesis by simp
qed

text \<open>
  C5 as stated fails on the year: an item that the catalog dates \<^verbatim>\<open>0000-01-01\<close> has the
  catalog year \<open>0\<close>, which is a year and not an empty value, and its record still takes
  the year 1999 of the enrichment payload, since \<^verbatim>\<open>year or ...\<close> treats \<open>0\<close> as it
  treats \<open>None\<close>.
\<close>

theorem catalog_year_zero_overridden_counterexample:
  "catalog_year ex_item_zero = Some 0
   \<and> crossref_resolved ex_world Movie (i_id ex_item_zero) ''tt123''
   \<and> enrichment_success ex_world ''tt123'' ex_omdb
   \<and> fst (map_to_movie ex_world ex_item_zero Movie [(35, ''Comedy'')] no_params ex_state) =
       Inr ex_record_zero
   \<and> m_year ex_record_zero = Some 1999"
proof -
  have cy: "catalog_year ex_item_zero = Some 0" by code_simp
  have run: "fst (map_to_movie ex_world ex_item_zero Movie [(35, ''Comedy'')] no_params ex_state) =
    Inr ex_record_zero"
    by code_simp
  have cr: "crossref_resolved ex_world Movie (i_id ex_item_zero) ''tt123''"
    by (simp add: crossref_resolved_def ex_world_def ex_item_zero_def)
  have en: "enrichment_success ex_world ''tt123'' ex_omdb"
    by (simp add: enrichment_success_def ex_world_def ex_omdb_def)
  have yr: "m_year ex_record_zero = Some 1999" by (simp add: ex_record_zero_def)
  from cy run cr en yr show ?thesis by simp
qed

section \<open>Properties of the strategies\<close>

lemma gather_Inr:
  "gather ms s = (Inr xs, s') \<Longrightarrow> list_all2 (\<lambda>m x. \<exists>s1. fst (m s1) = Inr x) ms xs"
proof (induction ms arbitrary: s xs s')
  case Nil
  then show ?case by (simp add: return_iff)
next
  case (Cons m ms)
  from Cons.prems obtain x sa ys sb where
    m: "m s = (Inr x, sa)" and g: "gather ms sa = (Inr ys, sb)" and xs: "xs = x # ys"
    by (auto simp: bind_Inr_iff return_iff)
  from m have "fst (m s) = Inr x" by simp
  then have "\<exists>s1. fst (m s1) = Inr x" ..
  with Cons.IH[OF g] xs show ?case by simp
qed

lemma gather_map_Inr:
  assumes "gather (map f items) s = (Inr xs, s')"
  shows "list_all2 (\<lambda>item x. \<exists>s1. fst (f item s1) = Inr x) items xs"
  using gather_Inr[OF assms] by (simp add: list_all2_map1)

lemma get_search_results_Inr:
  assumes "get_search_results w title is_series s = (Inr (data, endpoint), s')"
  shows "endpoint = ep_of is_series \<and>
         (\<exists>st. api_search w (ep_of is_series) title = Response st (Some data))"
  using assms
  by (auto simp: get_search_results_def Let_def bind_Inr_iff client_get_Inr_iff
      raise_for_status_Inr_iff json_Inr_iff return_iff)

lemma title_only_both_Inr:
  assumes "title_only_loop w params [Tv, Movie] [] s = (Inr movies, s')"
  shows "\<exists>tv_items movie_items genres_tv genres_movie tv_records movie_records st_tv st_movie.
           api_search w Tv (p_title params) = Response st_tv (Some tv_items) \<and>
           api_search w Movie (p_title params) = Response st_movie (Some movie_items) \<and>
           list_all2 (mapped_from w params genres_tv Tv) tv_items tv_records \<and>
           list_all2 (mapped_from w params genres_movie Movie) movie_items movie_records \<and>
           movies = tv_records @ movie_records"
proof -
  from assms obtain d1 e1 s1 g1 s2 m1 s3 d2 e2 s4 g2 s5 m2 s6 where
    r1: "get_search_results w (p_title params) True s = (Inr (d1, e1), s1)" and
    ga1: "gather (map (\<lambda>item. map_to_movie w item e1 g1 params) d1) s2 = (Inr m1, s3)" and
    r2: "get_search_results w (p_title params) False s3 = (Inr (d2, e2), s4)" and
    ga2: "gather (map (\<lambda>item. map_to_movie w item e2 g2 params) d2) s5 = (Inr m2, s6)" and
    mv: "movies = m1 @ m2"
    by (auto simp: bind_Inr_iff return_iff)
  from get_search_results_Inr[OF r1] obtain st1 where
    a1: "e1 = Tv" "api_search w Tv (p_title params) = Response st1 (Some d1)"
    by (auto simp: ep_of_def)
  from get_search_results_Inr[OF r2] obtain st2 where
    a2: "e2 = Movie" "api_search w Movie (p_title params) = Response st2 (Some d2)"
    by (auto simp: ep_of_def)
  from gather_map_Inr[OF ga1] a1(1) have l1: "list_all2 (mapped_from w params g1 Tv) d1 m1"
    by (simp add: mapped_from_def[abs_def])
  from gather_map_Inr[OF ga2] a2(1) have l2: "list_all2 (mapped_from w params g2 Movie) d2 m2"
    by (simp add: mapped_from_def[abs_def])
  from a1(2) a2(2) l1 l2 mv show ?thesis by blast
qed

section \<open>Claims about the router and its strategies\<close>

text \<open>
  C1. For every query with the title set and none of genre, actors or media type set, the
  router runs the title-only strategy, and the match filter is not applied: the result is
  every record mapped from the series search results followed by every record mapped from
  the movie search results. If any of genre, actors or media type is set alongside the
  title (a media type alone counts), the router runs the title-with-filters strategy.
\<close>

theorem router_title_strategies:
  assumes "truthy (p_title params)"
  shows "(\<not> truthy (p_genre params) \<and> \<not> truthy (p_actors params) \<and> p_type params = None \<longrightarrow>
            search_tmdb lower w params = search_by_title_only w params False \<and>
            (\<forall>s movies. fst (search_tmdb lower w params s) = Inr movies \<longrightarrow>
               (\<exists>tv_items movie_items genres_tv genres_movie tv_records movie_records st_tv st_movie.
                  api_search w Tv (p_title params) = Response st_tv (Some tv_items) \<and>
                  api_search w Movie (p_title params) = Response st_movie (Some movie_items) \<and>
                  list_all2 (mapped_from w params genres_tv Tv) tv_items tv_records \<and>
                  list_all2 (mapped_from w params genres_movie Movie) movie_items movie_records \<and>
                  movies = tv_records @ movie_records)))
       \<and> (truthy (p_genre params) \<or> truthy (p_actors params) \<or> p_type params \<noteq> None \<longrightarrow>
            search_tmdb lower w params =
              search_by_title_with_filters lower w params (p_type params = Some Series))"
proof (intro conjI impI)
  assume nf: "\<not> truthy (p_genre params) \<and> \<not> truthy (p_actors params) \<and> p_type params = None"
  with assms show eq: "search_tmdb lower w params = search_by_title_only w params False"
    by (simp add: search_tmdb_def Let_def)
  show "\<forall>s movies. fst (search_tmdb lower w params s) = Inr movies \<longrightarrow>
               (\<exists>tv_items movie_items genres_tv genres_movie tv_records movie_records st_tv st_movie.
                  api_search w Tv (p_title params) = Response st_tv (Some tv_items) \<and>
                  api_search w Movie (p_title params) = Response st_movie (Some movie_items) \<and>
                  list_all2 (mapped_from w params genres_tv Tv) tv_items tv_records \<and>
                  list_all2 (mapped_from w params genres_movie Movie) movie_items movie_records \<and>
                  movies = tv_records @ movie_records)"
  proof (intro allI impI)
    fix s movies
    assume "fst (search_tmdb lower w params s) = Inr movies"
    from fst_run[OF this] obtain s' where "search_tmdb lower w params s = (Inr movies, s')" ..
    with eq nf have "title_only_loop w params [Tv, Movie] [] s = (Inr movies, s')"
      by (simp add: search_by_title_only_def)
    from title_only_both_Inr[OF this]
    show "\<exists>tv_items movie_items genres_tv genres_movie tv_records movie_records st_tv st_movie.
                  api_search w Tv (p_title params) = Response st_tv (Some tv_items) \<and>
                  api_search w Movie (p_title params) = Response st_movie (Some movie_items) \<and>
                  list_all2 (mapped_from w params genres_tv Tv) tv_items tv_records \<and>
                  list_all2 (mapped_from w params genres_movie Movie) movie_items movie_records \<and>
                  movies = tv_records @ movie_records" .
  qed
next
  assume "truthy (p_genre params) \<or> truthy (p_actors params) \<or> p_type params \<noteq> None"
  with assms show "search_tmdb lower w params =
              search_by_title_with_filters lower w params (p_type params = Some Series)"
    by (auto simp: search_tmdb_def Let_def)
qed

theorem router_title_strategies_witness:
  "search_tmdb ascii_lower ex_world ex_query_title = search_by_title_only ex_world ex_query_title False \<and>
   (\<exists>tv_items movie_items genres_tv genres_movie tv_records movie_records st_tv st_movie.
      api_search ex_world Tv (Some ''Show'') = Response st_tv (Some tv_items) \<and>
      api_search ex_world Movie (Some ''Show'') = Response st_movie (Some movie_items) \<and>
      list_all2 (mapped_from ex_world ex_query_title genres_tv Tv) tv_items tv_records \<and>
      list_all2 (mapped_from ex_world ex_query_title genres_movie Movie) movie_items movie_records \<and>
      [ex_record_b Series, ex_record_a] = tv_records @ movie_records) \<and>
   search_tmdb ascii_lower ex_world ex_query_actor = search_by_title_with_filters ascii_lower ex_world ex_query_actor True"
proof -
  have run: "fst (search_tmdb ascii_lower ex_world ex_query_title ex_state) = Inr [ex_record_b Series, ex_record_a]"
    by code_simp
  have t: "truthy (p_title ex_query_title)" "truthy (p_title ex_query_actor)"
    by (simp_all add: ex_query_title_def ex_query_actor_def)
  have n: "\<not> truthy (p_genre ex_query_title) \<and> \<not> truthy (p_actors ex_query_title) \<and>
           p_type ex_query_title = None" "p_title ex_query_title = Some ''Show''"
    by (simp_all add: ex_query_title_def)
  have f: "truthy (p_genre ex_query_actor) \<or> truthy (p_actors ex_query_actor) \<or>
           p_type ex_query_actor \<noteq> None" "(p_type ex_query_actor = Some Series) = True"
    by (simp_all add: ex_query_actor_def)
  from router_title_strategies[OF t(1), where w=ex_world and lower=ascii_lower] n run
  have a: "search_tmdb ascii_lower ex_world ex_query_title = search_by_title_only ex_world ex_query_title False"
    and b: "\<exists>tv_items movie_items genres_tv genres_movie tv_records movie_records st_tv st_movie.
      api_search ex_world Tv (Some ''Show'') = Response st_tv (Some tv_items) \<and>
      api_search ex_world Movie (Some ''Show'') = Response st_movie (Some movie_items) \<and>
      list_all2 (mapped_from ex_world ex_query_title genres_tv Tv) tv_items tv_records \<and>
      list_all2 (mapped_from ex_world ex_query_title genres_movie Movie) movie_items movie_records \<and>
      [ex_record_b Series, ex_record_a] = tv_records @ movie_records"
    by (simp, metis)
  from router_title_strategies[OF t(2), where w=ex_world and lower=ascii_lower] f
  have c: "search_tmdb ascii_lower ex_world ex_query_actor = search_by_title_with_filters ascii_lower ex_world ex_query_actor True"
    by simp
  from a b c show ?thesis by blast
qed

text \<open>
  C3. For every pair of popularity lists, the popular fallback returns at most 20 records.
  When the query's title is empty they are the first 20 of the mapped records, movies then
  series, sorted by title in the order of the characters' codes; when the title is set
  they are the first 20 of the mapped records in their source order.
\<close>

theorem popular_fallback_cap_and_order:
  assumes "fst (get_popular_fallback w params s) = Inr movies"
  shows "length movies \<le> 20 \<and>
         (\<exists>movie_pop tv_pop s1 s2 genres_movie genres_tv mapped_movie mapped_tv.
            get_popular w False s = (Inr movie_pop, s1) \<and>
            get_popular w True s1 = (Inr tv_pop, s2) \<and>
            list_all2 (mapped_from w params genres_movie Movie) movie_pop mapped_movie \<and>
            list_all2 (mapped_from w params genres_tv Tv) tv_pop mapped_tv \<and>
            (\<not> truthy (p_title params) \<longrightarrow>
               movies = take 20 (sort_key m_title (mapped_movie @ mapped_tv)) \<and>
               sorted (map m_title movies)) \<and>
            (truthy (p_title params) \<longrightarrow> movies = take 20 (mapped_movie @ mapped_tv)))"
proof -
  from fst_run[OF assms] obtain s' where
    run: "get_popular_fallback w params s = (Inr movies, s')" ..
  from run obtain movie_pop s1 tv_pop s2 gm s3 gt s4 results s5 where
    mp: "get_popular w False s = (Inr movie_pop, s1)" and
    tp: "get_popular w True s1 = (Inr tv_pop, s2)" and
    ga: "gather (map (\<lambda>(item, t). map_to_movie w item t (if t = Movie then gm else gt) params)
           (map (\<lambda>i. (i, Movie)) movie_pop @ map (\<lambda>i. (i, Tv)) tv_pop)) s4 = (Inr results, s5)" and
    mv: "movies = take 20 (if \<not> truthy (p_title params) then sort_key m_title results else results)"
    unfolding get_popular_fallback_def Let_def bind_Inr_iff return_iff by blast
  from gather_map_Inr[OF ga] have
    "list_all2 (\<lambda>it x. \<exists>s1. fst ((case it of (item, t) \<Rightarrow>
        map_to_movie w item t (if t = Movie then gm else gt) params) s1) = Inr x)
      (map (\<lambda>i. (i, Movie)) movie_pop @ map (\<lambda>i. (i, Tv)) tv_pop) results" .
  then obtain mm mt where res: "results = mm @ mt" and
    lm: "list_all2 (\<lambda>it x. \<exists>s1. fst ((case it of (item, t) \<Rightarrow>
        map_to_movie w item t (if t = Movie then gm else gt) params) s1) = Inr x)
      (map (\<lambda>i. (i, Movie)) movie_pop) mm" and
    lt: "list_all2 (\<lambda>it x. \<exists>s1. fst ((case it of (item, t) \<Rightarrow>
        map_to_movie w item t (if t = Movie then gm else gt) params) s1) = Inr x)
      (map (\<lambda>i. (i, Tv)) tv_pop) mt"
    by (auto simp: list_all2_append1)
  from lm have lm': "list_all2 (mapped_from w params gm Movie) movie_pop mm"
    by (simp add: list_all2_map1 mapped_from_def[abs_def])
  from lt have lt': "list_all2 (mapped_from w params gt Tv) tv_pop mt"
    by (simp add: list_all2_map1 mapped_from_def[abs_def])
  have len: "length movies \<le> 20" using mv by simp
  have srt: "\<not> truthy (p_title params) \<longrightarrow> sorted (map m_title movies)"
  proof
    assume "\<not> truthy (p_title params)"
    with mv have "map m_title movies = take 20 (map m_title (sort_key m_title results))"
      by (simp add: take_map)
    moreover have "sorted (map m_title (sort_key m_title results))" by (rule sorted_sort_key)
    ultimately show "sorted (map m_title movies)" by (simp add: sorted_wrt_take)
  qed
  from mp tp lm' lt' mv res srt len show ?thesis by auto
qed

theorem popular_fallback_cap_and_order_witness:
  "length [ex_record_a, ex_record_b MovieType, ex_record_b Series] \<le> 20 \<and>
   \<not> truthy (p_title no_params) \<and>
   sorted (map m_title [ex_record_a, ex_record_b MovieType, ex_record_b Series])"
proof -
  have run: "fst (get_popular_fallback ex_world no_params ex_state) =
               Inr [ex_record_a, ex_record_b MovieType, ex_record_b Series]"
    by code_simp
  have t: "\<not> truthy (p_title no_params)" by (simp add: no_params_def)
  from popular_fallback_cap_and_order[OF run] t show ?thesis by blast
qed

section \<open>Decimal text of integers\<close>

lemma below_ten: "(d::nat) < 10 \<Longrightarrow> d \<in> {0, 1, 2, 3, 4, 5, 6, 7, 8, 9}"
  by auto

lemma digit_char_props:
  assumes "d < 10"
  shows "is_digit (digit_char d) \<and> digit_val (digit_char d) = d \<and> \<not> is_space (digit_char d) \<and>
    digit_char d \<noteq> CHR ''-'' \<and> digit_char d \<noteq> CHR ''+''"
  using below_ten[OF assms]
  by (auto simp: is_digit_def digit_val_def digit_char_def is_space_def less_eq_char_def)

lemma str_nat_digits: "\<forall>c \<in> set (str_nat n). is_digit c \<and> \<not> is_space c \<and> c \<noteq> CHR ''-'' \<and> c \<noteq> CHR ''+''"
proof (induction n rule: str_nat.induct)
  case (1 n)
  show ?case
  proof (cases "n < 10")
    case True
    then show ?thesis using digit_char_props[of n] by (subst str_nat.simps) simp
  next
    case False
    have "n mod 10 < 10" by simp
    from digit_char_props[OF this] 1[OF False] False show ?thesis
      by (subst str_nat.simps) auto
  qed
qed

lemma str_nat_nonempty: "str_nat n \<noteq> []"
  by (subst str_nat.simps) simp

lemma parse_digits_all_digits:
  "\<forall>c \<in> set cs. is_digit c \<Longrightarrow>
     parse_digits acc cs = Some (foldl (\<lambda>a c. 10 * a + digit_val c) acc cs)"
  by (induction acc cs rule: parse_digits.induct) auto

lemma parse_nat_all_digits:
  assumes "cs \<noteq> []" "\<forall>c \<in> set cs. is_digit c"
  shows "parse_nat cs = Some (foldl (\<lambda>a c. 10 * a + digit_val c) 0 cs)"
  using assms by (cases cs) (auto simp: parse_nat_def parse_digits_all_digits)

lemma str_nat_value: "foldl (\<lambda>a c. 10 * a + digit_val c) 0 (str_nat n) = n"
proof (induction n rule: str_nat.induct)
  case (1 n)
  show ?case
  proof (cases "n < 10")
    case True
    then show ?thesis using digit_char_props[of n] by (subst str_nat.simps) simp
  next
    case False
    have "n mod 10 < 10" by simp
    from digit_char_props[OF this] 1[OF False] False show ?thesis
      by (subst str_nat.simps) simp
  qed
qed

lemma parse_nat_str_nat: "parse_nat (str_nat n) = Some n"
  using parse_nat_all_digits[OF str_nat_nonempty, of n] str_nat_digits[of n]
  by (simp add: str_nat_value)

lemma strip_id:
  assumes "s \<noteq> []" "\<not> is_space (hd s)" "\<not> is_space (last s)"
  shows "strip s = s"
proof -
  from assms have a: "dropWhile is_space s = s" by (cases s) auto
  from assms have "rev s \<noteq> []" "\<not> is_space (hd (rev s))" by (auto simp: hd_rev)
  then have "dropWhile is_space (rev s) = rev s" by (cases "rev s") auto
  with a show ?thesis by (simp add: strip_def)
qed

lemma strip_str_nat: "strip (str_nat n) = str_nat n"
proof (rule strip_id)
  show "str_nat n \<noteq> []" by (rule str_nat_nonempty)
  have "hd (str_nat n) \<in> set (str_nat n)" "last (str_nat n) \<in> set (str_nat n)"
    using str_nat_nonempty by auto
  then show "\<not> is_space (hd (str_nat n))" "\<not> is_space (last (str_nat n))"
    using str_nat_digits by blast+
qed

lemma hd_str_nat: "hd (str_nat n) \<noteq> CHR ''-'' \<and> hd (str_nat n) \<noteq> CHR ''+''"
proof -
  have "hd (str_nat n) \<in> set (str_nat n)" using str_nat_nonempty by auto
  then show ?thesis using str_nat_digits by blast
qed


lemma neg_case:
  assumes "i < 0"
  shows "parse_int (py_str i) = Some i"
proof -
  let ?d = "str_nat (nat (- i))"
  have ne: "?d \<noteq> []" by (rule str_nat_nonempty)
  have "last ?d \<in> set ?d" using ne by simp
  then have l: "\<not> is_space (last ?d)" using str_nat_digits by blast
  have m: "\<not> is_space (CHR ''-'')" by (simp add: is_space_def)
  have "strip (CHR ''-'' # ?d) = CHR ''-'' # ?d"
    by (rule strip_id) (use ne l m in simp_all)
  then have "parse_int (CHR ''-'' # ?d) = map_option (\<lambda>n. - int n) (parse_nat ?d)"
    by (simp add: parse_int_def)
  also have "\<dots> = Some (- int (nat (- i)))" by (simp add: parse_nat_str_nat)
  also have "\<dots> = Some i" using assms by simp
  finally show ?thesis using assms by (simp add: py_str_def)
qed


lemma nonneg_case:
  assumes "\<not> i < 0"
  shows "parse_int (py_str i) = Some i"
proof -
  let ?d = "str_nat (nat i)"
  obtain c cs where cs: "?d = c # cs"
    using str_nat_nonempty[of "nat i"] by (cases ?d) auto
  from hd_str_nat[of "nat i"] cs have c: "c \<noteq> CHR ''-''" "c \<noteq> CHR ''+''" by simp_all
  have p: "parse_nat (c # cs) = Some (nat i)" using parse_nat_str_nat[of "nat i"] cs by simp
  have "strip (c # cs) = c # cs" using strip_str_nat[of "nat i"] cs by simp
  then have "parse_int (c # cs) = map_option int (parse_nat (c # cs))"
    using c by (simp add: parse_int_def)
  also have "\<dots> = Some i" using p assms by simp
  finally show ?thesis using assms cs by (simp add: py_str_def)
qed

lemma parse_int_py_str: "parse_int (py_str i) = Some i"
  using neg_case nonneg_case by blast

lemma py_str_inj: "py_str i = py_str j \<Longrightarrow> i = j"
proof -
  assume "py_str i = py_str j"
  then have "parse_int (py_str i) = parse_int (py_str j)" by simp
  then show "i = j" by (simp add: parse_int_py_str)
qed

lemma py_str_nonempty: "py_str i \<noteq> []"
  by (simp add: py_str_def str_nat_nonempty)

section \<open>The taxonomy cache\<close>

lemma update_fresh: "k \<notin> fst ` set d \<Longrightarrow> AList.update k v d = d @ [(k, v)]"
  by (induction d) auto

lemma foldl_update_distinct:
  "distinct (map fst (d @ kvs)) \<Longrightarrow>
     foldl (\<lambda>d (k, v). AList.update k v d) d kvs = d @ kvs"
proof (induction kvs arbitrary: d)
  case Nil
  show ?case by simp
next
  case (Cons p ps)
  obtain k v where p: "p = (k, v)" by (cases p)
  from Cons.prems p have fresh: "k \<notin> fst ` set d" by auto
  from Cons.prems p have "distinct (map fst ((d @ [(k, v)]) @ ps))" by auto
  from Cons.IH[OF this] p fresh show ?case by (simp add: update_fresh)
qed

lemma dict_of_distinct_id: "distinct (map fst kvs) \<Longrightarrow> dict_of kvs = kvs"
  using foldl_update_distinct[of "[]" kvs] by (simp add: dict_of_def)

lemma distinct_foldl_update:
  "distinct (map fst d) \<Longrightarrow> distinct (map fst (foldl (\<lambda>d (k, v). AList.update k v d) d kvs))"
proof (induction kvs arbitrary: d)
  case Nil
  then show ?case by simp
next
  case (Cons p ps)
  obtain k v where p: "p = (k, v)" by (cases p)
  from Cons.prems have "distinct (map fst (AList.update k v d))" by (rule distinct_update)
  from Cons.IH[OF this] p show ?case by simp
qed

lemma distinct_dict_of: "distinct (map fst (dict_of kvs))"
  using distinct_foldl_update[of "[]" kvs] by (simp add: dict_of_def)

lemma distinct_dumps_genres:
  assumes "distinct (map fst mapping)"
  shows "distinct (map fst (dumps_genres mapping))"
proof -
  have eq: "map fst (dumps_genres mapping) = map py_str (map fst mapping)"
    by (simp add: dumps_genres_def case_prod_unfold)
  have "inj_on py_str (set (map fst mapping))"
    by (rule inj_onI) (rule py_str_inj)
  with assms have "distinct (map py_str (map fst mapping))"
    by (simp only: distinct_map[of py_str] simp_thms)
  with eq show ?thesis by simp
qed

lemma int_keys_dumps_genres:
  "distinct (map fst (d @ mapping)) \<Longrightarrow>
     int_keys (dumps_genres mapping) d s = (Inr (d @ mapping), s)"
proof (induction mapping arbitrary: d)
  case Nil
  show ?case by (simp add: dumps_genres_def return_def)
next
  case (Cons p ps)
  obtain k v where p: "p = (k, v)" by (cases p)
  from Cons.prems p have fresh: "k \<notin> fst ` set d" by auto
  from Cons.prems p have "distinct (map fst ((d @ [(k, v)]) @ ps))" by auto
  from Cons.IH[OF this] have ih: "int_keys (dumps_genres ps) (d @ [(k, v)]) s = (Inr (d @ (k, v) # ps), s)"
    by simp
  have "py_int (py_str k) s = (Inr k, s)"
    by (simp add: py_int_def parse_int_py_str return_def)
  then show ?case using p ih fresh
    by (simp add: dumps_genres_def bind_def update_fresh)
qed

lemma fetch_genres_hit:
  assumes "redis_genres s (ep_of is_series) = Some (dumps_genres mapping, None)"
    and "distinct (map fst mapping)"
  shows "fetch_genres w is_series s = (Inr mapping, s)"
proof -
  have "live (now s) (redis_genres s (ep_of is_series)) = Some (dumps_genres mapping)"
    using assms(1) by (simp add: live_def)
  moreover have "int_keys (dict_of (dumps_genres mapping)) [] s = (Inr mapping, s)"
    using int_keys_dumps_genres[of "[]" mapping s] assms(2)
    by (simp add: dict_of_distinct_id distinct_dumps_genres)
  ultimately show ?thesis
    by (simp add: fetch_genres_def Let_def bind_def redis_get_genres_def)
qed

lemma fetch_genres_miss:
  assumes "live (now s) (redis_genres s (ep_of is_series)) = None"
    and "fetch_genres w is_series s = (Inr mapping, s')"
  shows "distinct (map fst mapping) \<and>
         (\<exists>st genres. api_genre_list w (ep_of is_series) = Response st (Some genres) \<and>
            200 \<le> st \<and> st < 300 \<and> mapping = dict_of genres) \<and>
         s' = s\<lparr>calls := calls s @ [GenreList (ep_of is_series)],
                redis_genres := (redis_genres s)(ep_of is_series \<mapsto> (dumps_genres mapping, None))\<rparr>"
  using assms
  by (auto simp: fetch_genres_def Let_def bind_Inr_iff redis_get_genres_def redis_set_genres_def
      client_get_Inr_iff raise_for_status_Inr_iff json_Inr_iff return_iff distinct_dict_of)

section \<open>Claims about the taxonomy cache\<close>

text \<open>
  C9. For every media type, after a taxonomy fetch that missed the cache, the entry of
  that media type holds the mapping and never expires, and one upstream taxonomy call was
  made; every later taxonomy fetch for the same media type that finds this entry, at any
  later time and whatever the upstream does, returns the mapping the miss returned and
  leaves the state as it is: no upstream call, no write.
\<close>

theorem taxonomy_cache_hit_after_miss:
  assumes "live (now s) (redis_genres s (ep_of is_series)) = None"
    and "fst (fetch_genres w is_series s) = Inr mapping"
  shows "redis_genres (snd (fetch_genres w is_series s)) (ep_of is_series) =
           Some (dumps_genres mapping, None) \<and>
         calls (snd (fetch_genres w is_series s)) = calls s @ [GenreList (ep_of is_series)] \<and>
         (\<forall>w' s''. redis_genres s'' (ep_of is_series) =
                      redis_genres (snd (fetch_genres w is_series s)) (ep_of is_series) \<longrightarrow>
              fetch_genres w' is_series s'' = (Inr mapping, s''))"
proof -
  from fst_run[OF assms(2)] obtain s' where run: "fetch_genres w is_series s = (Inr mapping, s')" ..
  from fetch_genres_miss[OF assms(1) run] have
    d: "distinct (map fst mapping)" and
    s': "s' = s\<lparr>calls := calls s @ [GenreList (ep_of is_series)],
                redis_genres := (redis_genres s)(ep_of is_series \<mapsto> (dumps_genres mapping, None))\<rparr>"
    by blast+
  have a: "redis_genres s' (ep_of is_series) = Some (dumps_genres mapping, None)"
    using s' by simp
  have b: "calls s' = calls s @ [GenreList (ep_of is_series)]" using s' by simp
  have c: "\<forall>w' s''. redis_genres s'' (ep_of is_series) = redis_genres s' (ep_of is_series) \<longrightarrow>
              fetch_genres w' is_series s'' = (Inr mapping, s'')"
    using a d by (auto intro: fetch_genres_hit)
  from a b c run show ?thesis by simp
qed

theorem taxonomy_cache_hit_after_miss_witness:
  "fst (fetch_genres ex_world_down False
          ((snd (fetch_genres ex_world False ex_state))\<lparr>now := 86400, calls := []\<rparr>)) =
     Inr [(18, ''Drama''), (35, ''Comedy'')]"
proof -
  have miss: "live (now ex_state) (redis_genres ex_state (ep_of False)) = None"
    by (simp add: live_def ex_state_def)
  have run: "fst (fetch_genres ex_world False ex_state) = Inr [(18, ''Drama''), (35, ''Comedy'')]"
    by code_simp
  let ?later = "(snd (fetch_genres ex_world False ex_state))\<lparr>now := 86400, calls := []\<rparr>"
  have same: "redis_genres ?later (ep_of False) =
              redis_genres (snd (fetch_genres ex_world False ex_state)) (ep_of False)"
    by simp
  from taxonomy_cache_hit_after_miss[OF miss run] same
  have "fetch_genres ex_world_down False ?later = (Inr [(18, ''Drama''), (35, ''Comedy'')], ?later)"
    by blast
  then show ?thesis by simp
qed

section \<open>Runs of the discovery paths\<close>

lemma bind_Inr: "m s = (Inr x, s') \<Longrightarrow> bind m f s = f x s'"
  by (simp add: bind_def)

lemma int_keys_pure: "\<exists>r. \<forall>s. int_keys kvs d s = (r, s)"
proof (induction kvs arbitrary: d)
  case Nil
  show ?case by (simp add: return_def)
next
  case (Cons p ps)
  obtain k v where p: "p = (k, v)" by (cases p)
  show ?case
  proof (cases "parse_int k")
    case None
    then show ?thesis using p by (simp add: bind_def py_int_def raise_def)
  next
    case (Some i)
    from Cons.IH[of "AList.update i v d"] obtain r where
      "\<forall>s. int_keys ps (AList.update i v d) s = (r, s)" ..
    then show ?thesis using p Some by (simp add: bind_def py_int_def return_def)
  qed
qed

lemma fetch_genres_calls:
  "fst (fetch_genres w b (s\<lparr>calls := c\<rparr>)) = fst (fetch_genres w b s)"
proof (cases "live (now s) (redis_genres s (ep_of b))")
  case None
  then show ?thesis
    by (cases "api_genre_list w (ep_of b)")
       (auto simp: fetch_genres_def Let_def bind_def redis_get_genres_def client_get_def
          raise_for_status_def json_def return_def raise_def redis_set_genres_def
          split: option.splits)
next
  case (Some members)
  from int_keys_pure[of "dict_of members" "[]"] obtain r where
    "\<forall>s. int_keys (dict_of members) [] s = (r, s)" ..
  with Some show ?thesis
    by (simp add: fetch_genres_def Let_def bind_def redis_get_genres_def)
qed

lemma search_people_ok:
  assumes "api_search_person w name = Response st (Some people)" "ok_status st"
  shows "search_people w name s = (Inr people, s\<lparr>calls := calls s @ [SearchPerson name]\<rparr>)"
  using assms
  by (simp add: search_people_def bind_def client_get_def raise_for_status_def json_def
      return_def ok_status_def)

lemma discover_call_ok:
  assumes "api_discover w ep wg wc = Response st (Some results)" "ok_status st"
  shows "fst (discover_call w ep wg wc s) = Inr (results, ep)"
  using assms
  by (simp add: discover_call_def bind_def client_get_def raise_for_status_def json_def
      return_def ok_status_def)

lemma resolve_with_genres_ok:
  assumes "truthy genre \<longrightarrow> fst (fetch_genres w b s) = Inr genres"
  shows "\<exists>s'. resolve_with_genres lower w b genre s = (Inr (with_genres_param lower genres genre), s')"
proof (cases "truthy genre")
  case True
  with assms have "fst (fetch_genres w b s) = Inr genres" by simp
  from fst_run[OF this] obtain s' where f: "fetch_genres w b s = (Inr genres, s')" ..
  have "truthy (map_option py_str (find_genre_id lower genres (the genre))) \<or>
        map_option py_str (find_genre_id lower genres (the genre)) = None"
    by (cases "find_genre_id lower genres (the genre)") (simp_all add: py_str_nonempty)
  then have "(if truthy (map_option py_str (find_genre_id lower genres (the genre)))
              then map_option py_str (find_genre_id lower genres (the genre)) else None) =
             map_option py_str (find_genre_id lower genres (the genre))"
    by auto
  with True f show ?thesis
    by (simp add: resolve_with_genres_def bind_def Let_def return_def with_genres_param_def)
next
  case False
  then show ?thesis
    by (simp add: resolve_with_genres_def return_def with_genres_param_def)
qed

lemma discover_movie_ok:
  assumes tax: "truthy genre \<longrightarrow> fst (fetch_genres w False s) = Inr genres"
    and ppl: "truthy actors \<longrightarrow>
                (\<exists>st. api_search_person w (the actors) = Response st (Some people) \<and> ok_status st)"
    and dis: "api_discover w Movie (with_genres_param lower genres genre) (with_cast_param people actors) =
                Response st (Some results)" "ok_status st"
  shows "fst (discover_movie_by_filters lower w genre actors s) = Inr (results, Movie)"
proof -
  from resolve_with_genres_ok[OF tax] obtain s1 where
    r: "resolve_with_genres lower w False genre s = (Inr (with_genres_param lower genres genre), s1)" ..
  have "\<exists>s2. (if truthy actors then
             bind (search_people w (the actors)) (\<lambda>people.
             return (case people of [] \<Rightarrow> None | person # _ \<Rightarrow> Some (py_str_opt person)))
           else return None) s1 = (Inr (with_cast_param people actors), s2)"
  proof (cases "truthy actors")
    case True
    with ppl obtain st' where "api_search_person w (the actors) = Response st' (Some people)"
      "ok_status st'" by blast
    from search_people_ok[OF this] True show ?thesis
      by (simp add: bind_def return_def with_cast_param_def)
  next
    case False
    then show ?thesis by (simp add: return_def with_cast_param_def)
  qed
  then obtain s2 where c: "(if truthy actors then
             bind (search_people w (the actors)) (\<lambda>people.
             return (case people of [] \<Rightarrow> None | person # _ \<Rightarrow> Some (py_str_opt person)))
           else return None) s1 = (Inr (with_cast_param people actors), s2)" ..
  show ?thesis
    unfolding discover_movie_by_filters_def
    by (simp add: bind_def r c discover_call_ok[OF dis] del: split_paired_All split: prod.splits sum.splits)
qed

lemma discover_tv_plain_ok:
  assumes na: "\<not> truthy actors"
    and tax: "truthy genre \<longrightarrow> fst (fetch_genres w True s) = Inr genres"
    and dis: "api_discover w Tv (with_genres_param lower genres genre) None = Response st (Some results)"
      "ok_status st"
  shows "fst (discover_tv_by_filters lower w genre actors s) = Inr (results, Tv)"
proof -
  from resolve_with_genres_ok[OF tax] obtain s1 where
    r: "resolve_with_genres lower w True genre s = (Inr (with_genres_param lower genres genre), s1)" ..
  show ?thesis
    unfolding discover_tv_by_filters_def using na
    by (simp add: bind_def r discover_call_ok[OF dis])
qed

lemma discover_tv_nobody:
  assumes "truthy actors"
    and "api_search_person w (the actors) = Response st (Some [])" "ok_status st"
  shows "discover_tv_by_filters lower w genre actors s =
           (Inr ([], Tv), s\<lparr>calls := calls s @ [SearchPerson (the actors)]\<rparr>)"
  unfolding discover_tv_by_filters_def using assms(1)
  by (simp add: bind_def search_people_ok[OF assms(2,3)] return_def)

lemma discover_tv_credits_unfiltered:
  assumes a: "truthy actors"
    and p: "api_search_person w (the actors) = Response st (Some (person # others))" "ok_status st"
    and c: "api_tv_credits w person = Response st' (Some credits)" "ok_status st'"
    and tax: "truthy genre \<longrightarrow> fst (fetch_genres w True s) = Inr genres \<and>
                                 \<not> truthy_int (find_genre_id lower genres (the genre))"
  shows "fst (discover_tv_by_filters lower w genre actors s) = Inr (credits, Tv)"
proof -
  let ?s2 = "s\<lparr>calls := calls s @ [SearchPerson (the actors)]\<rparr>"
  let ?s3 = "s\<lparr>calls := calls s @ [SearchPerson (the actors), PersonTvCredits person]\<rparr>"
  have cg: "client_get (PersonTvCredits person) (api_tv_credits w person) ?s2 =
              (Inr (st', Some credits), ?s3)"
    using c(1) by (simp add: client_get_def)
  have rs: "raise_for_status (PersonTvCredits person) st' ?s3 = (Inr (), ?s3)"
    using c(2) by (simp add: raise_for_status_def return_def ok_status_def)
  have js: "json (PersonTvCredits person) (Some credits) ?s3 = (Inr credits, ?s3)"
    by (simp add: json_def return_def)
  have fin: "fst ((if truthy genre then
              bind (fetch_genres w True) (\<lambda>genres.
              let genre_id = find_genre_id lower genres (the genre) in
              if truthy_int genre_id then
                return (filter (\<lambda>show. the genre_id \<in> set (i_genre_ids show)) credits, Tv)
              else return (credits, Tv))
            else return (credits, Tv)) ?s3) = Inr (credits, Tv)"
  proof (cases "truthy genre")
    case True
    with tax have "fst (fetch_genres w True s) = Inr genres"
      and nf: "\<not> truthy_int (find_genre_id lower genres (the genre))" by simp_all
    then have "fst (fetch_genres w True ?s3) = Inr genres"
      using fetch_genres_calls[where w=w and b=True and s=s and c="calls ?s3"] by simp
    from fst_run[OF this] obtain s4 where f: "fetch_genres w True ?s3 = (Inr genres, s4)" ..
    show ?thesis using True nf
      by (simp add: bind_Inr[where m="fetch_genres w True", OF f] Let_def return_def)
  next
    case False
    then show ?thesis by (simp add: return_def)
  qed
  show ?thesis
    unfolding discover_tv_by_filters_def using a
    by (simp add: bind_Inr[where m="search_people w (the actors)", OF search_people_ok[OF p]]
        bind_Inr[where m="client_get (PersonTvCredits person) (api_tv_credits w person)", OF cg]
        bind_Inr[where m="raise_for_status (PersonTvCredits person) st'", OF rs]
        bind_Inr[where m="json (PersonTvCredits person) (Some credits)", OF js] fin)
qed

section \<open>Claims about filter discovery\<close>

text \<open>
  C7, as amended. A genre name that matches no taxonomy entry, or an actor name whose
  person search finds nobody, does not fail a discovery whose upstream calls succeed. On
  the movie path, and on the series path without actors, the discovery call is sent with
  whatever filters resolved and its results are returned; an unresolved genre or an
  unmatched person adds no filter. On the series path with actors, an unmatched person
  ends the discovery with the empty candidate list after the person search alone, and an
  unresolved genre leaves the person's credit list as it is.
\<close>

theorem unresolved_filters_degrade:
  "((truthy genre \<longrightarrow> fst (fetch_genres w False s) = Inr genres) \<and>
    (truthy actors \<longrightarrow>
       (\<exists>st. api_search_person w (the actors) = Response st (Some people) \<and> ok_status st)) \<and>
    api_discover w Movie (with_genres_param lower genres genre) (with_cast_param people actors) =
      Response st (Some results) \<and> ok_status st
    \<longrightarrow> fst (discover_movie_by_filters lower w genre actors s) = Inr (results, Movie))
   \<and> (\<not> truthy actors \<and> (truthy genre \<longrightarrow> fst (fetch_genres w True s) = Inr genres) \<and>
       api_discover w Tv (with_genres_param lower genres genre) None = Response st (Some results) \<and>
       ok_status st
       \<longrightarrow> fst (discover_tv_by_filters lower w genre actors s) = Inr (results, Tv))
   \<and> (truthy actors \<and> api_search_person w (the actors) = Response st (Some []) \<and> ok_status st
       \<longrightarrow> discover_tv_by_filters lower w genre actors s =
             (Inr ([], Tv), s\<lparr>calls := calls s @ [SearchPerson (the actors)]\<rparr>))
   \<and> (truthy actors \<and>
       api_search_person w (the actors) = Response st (Some (person # others)) \<and> ok_status st \<and>
       api_tv_credits w person = Response st' (Some credits) \<and> ok_status st' \<and>
       (truthy genre \<longrightarrow> fst (fetch_genres w True s) = Inr genres \<and>
                           \<not> truthy_int (find_genre_id lower genres (the genre)))
       \<longrightarrow> fst (discover_tv_by_filters lower w genre actors s) = Inr (credits, Tv))
   \<and> (truthy genre \<and> find_genre_id lower genres (the genre) = None \<longrightarrow>
         with_genres_param lower genres genre = None)
   \<and> (people = [] \<longrightarrow> with_cast_param people actors = None)"
proof (intro conjI impI)
  assume "(truthy genre \<longrightarrow> fst (fetch_genres w False s) = Inr genres) \<and>
    (truthy actors \<longrightarrow>
       (\<exists>st. api_search_person w (the actors) = Response st (Some people) \<and> ok_status st)) \<and>
    api_discover w Movie (with_genres_param lower genres genre) (with_cast_param people actors) =
      Response st (Some results) \<and> ok_status st"
  then show "fst (discover_movie_by_filters lower w genre actors s) = Inr (results, Movie)"
    using discover_movie_ok[where lower=lower, of genre w s genres actors people st results] by blast
next
  assume "\<not> truthy actors \<and> (truthy genre \<longrightarrow> fst (fetch_genres w True s) = Inr genres) \<and>
       api_discover w Tv (with_genres_param lower genres genre) None = Response st (Some results) \<and>
       ok_status st"
  then show "fst (discover_tv_by_filters lower w genre actors s) = Inr (results, Tv)"
    using discover_tv_plain_ok[where lower=lower, of actors genre w s genres st results] by blast
next
  assume "truthy actors \<and> api_search_person w (the actors) = Response st (Some []) \<and> ok_status st"
  then show "discover_tv_by_filters lower w genre actors s =
             (Inr ([], Tv), s\<lparr>calls := calls s @ [SearchPerson (the actors)]\<rparr>)"
    using discover_tv_nobody[where lower=lower, of actors w st genre s] by blast
next
  assume "truthy actors \<and>
       api_search_person w (the actors) = Response st (Some (person # others)) \<and> ok_status st \<and>
       api_tv_credits w person = Response st' (Some credits) \<and> ok_status st' \<and>
       (truthy genre \<longrightarrow> fst (fetch_genres w True s) = Inr genres \<and>
                           \<not> truthy_int (find_genre_id lower genres (the genre)))"
  then show "fst (discover_tv_by_filters lower w genre actors s) = Inr (credits, Tv)"
    using discover_tv_credits_unfiltered[where lower=lower, of actors w st person others st' credits genre s genres]
    by blast
next
  assume "truthy genre \<and> find_genre_id lower genres (the genre) = None"
  then show "with_genres_param lower genres genre = None" by (simp add: with_genres_param_def)
next
  assume "people = []"
  then show "with_cast_param people actors = None" by (simp add: with_cast_param_def)
qed

theorem unresolved_filters_degrade_witness:
  "fst (discover_movie_by_filters ascii_lower ex_world (Some ''Horror'') (Some ''Nobody'') ex_state) =
     Inr ([ex_item_a], Movie)
   \<and> with_genres_param ascii_lower [(18, ''Drama''), (35, ''Comedy'')] (Some ''Horror'') = None
   \<and> with_cast_param [] (Some ''Nobody'') = None"
proof -
  have tax: "truthy (Some ''Horror'') \<longrightarrow>
             fst (fetch_genres ex_world False ex_state) = Inr [(18, ''Drama''), (35, ''Comedy'')]"
    by code_simp
  have ppl: "truthy (Some ''Nobody'') \<longrightarrow>
       (\<exists>st. api_search_person ex_world (the (Some ''Nobody'')) = Response st (Some []) \<and>
             ok_status st)"
    by (simp add: ex_world_def ok_status_def)
  have dis: "api_discover ex_world Movie
               (with_genres_param ascii_lower [(18, ''Drama''), (35, ''Comedy'')] (Some ''Horror''))
               (with_cast_param [] (Some ''Nobody'')) = Response 200 (Some [ex_item_a]) \<and>
             ok_status 200"
    by (simp add: ex_world_def ok_status_def)
  have g: "truthy (Some ''Horror'') \<and>
           find_genre_id ascii_lower [(18, ''Drama''), (35, ''Comedy'')] (the (Some ''Horror'')) = None"
    by code_simp
  from unresolved_filters_degrade[where lower=ascii_lower, of "Some ''Horror''" ex_world ex_state
         "[(18, ''Drama''), (35, ''Comedy'')]" "Some ''Nobody''" "[]" 200 "[ex_item_a]"]
       tax ppl dis g
  show ?thesis by blast
qed

text \<open>
  The claim as first stated has the series path go on with the filters that resolved when
  nobody is found. In the sample catalog the genre \<^verbatim>\<open>Drama\<close> resolves to 18 and a
  series discovery with that genre alone has a result, but the discovery for the actor
  \<^verbatim>\<open>Nobody\<close> returns no candidate and sends the person search only.
\<close>

theorem unmatched_actor_series_counterexample:
  "fst (discover_tv_by_filters ascii_lower ex_world (Some ''Drama'') (Some ''Nobody'') ex_state) = Inr ([], Tv)
   \<and> calls (snd (discover_tv_by_filters ascii_lower ex_world (Some ''Drama'') (Some ''Nobody'') ex_state)) =
       [SearchPerson ''Nobody'']
   \<and> fst (fetch_genres ex_world True ex_state) = Inr [(18, ''Drama''), (35, ''Comedy'')]
   \<and> with_genres_param ascii_lower [(18, ''Drama''), (35, ''Comedy'')] (Some ''Drama'') = Some ''18''
   \<and> with_cast_param [] (Some ''Nobody'') = None
   \<and> api_discover ex_world Tv (Some ''18'') None = Response 200 (Some [ex_item_a])"
proof -
  have a: "fst (discover_tv_by_filters ascii_lower ex_world (Some ''Drama'') (Some ''Nobody'') ex_state) =
             Inr ([], Tv)" by code_simp
  have b: "calls (snd (discover_tv_by_filters ascii_lower ex_world (Some ''Drama'') (Some ''Nobody'') ex_state)) =
       [SearchPerson ''Nobody'']" by code_simp
  have c: "fst (fetch_genres ex_world True ex_state) = Inr [(18, ''Drama''), (35, ''Comedy'')]"
    by code_simp
  have d: "with_genres_param ascii_lower [(18, ''Drama''), (35, ''Comedy'')] (Some ''Drama'') = Some ''18''"
    by code_simp
  have e: "with_cast_param [] (Some ''Nobody'') = None" by code_simp
  have f: "api_discover ex_world Tv (Some ''18'') None = Response 200 (Some [ex_item_a])"
    by (simp add: ex_world_def)
  from a b c d e f show ?thesis by blast
qed

section \<open>Candidates of the title-with-filters strategy\<close>

lemma find_genre_id_find:
  "find_genre_id lower genres genre =
     map_option fst (find (\<lambda>entry. lower (snd entry) = lower genre) genres)"
  by (induction genres) auto

lemma find_genre_id_resolves:
  assumes "python_lower lower"
  shows "(find_genre_id lower genres genre = Some gid) = resolves_to lower genres genre gid"
proof
  assume "find_genre_id lower genres genre = Some gid"
  then obtain entry where
    f: "find (\<lambda>entry. lower (snd entry) = lower genre) genres = Some entry" and
    g: "fst entry = gid"
    by (auto simp: find_genre_id_find)
  from f obtain i where "i < length genres" "lower (snd (genres ! i)) = lower genre"
    "entry = genres ! i" "\<forall>j<i. lower (snd (genres ! j)) \<noteq> lower genre"
    unfolding find_Some_iff by blast
  with g show "resolves_to lower genres genre gid"
    unfolding resolves_to_def ci_equal_lower[OF assms] by (intro exI[of _ i]) simp
next
  assume "resolves_to lower genres genre gid"
  then obtain k where k: "k < length genres" "fst (genres ! k) = gid"
    "lower (snd (genres ! k)) = lower genre" "\<forall>j<k. lower (snd (genres ! j)) \<noteq> lower genre"
    unfolding resolves_to_def ci_equal_lower[OF assms] by blast
  then have "find (\<lambda>entry. lower (snd entry) = lower genre) genres = Some (genres ! k)"
    unfolding find_Some_iff by (intro exI[of _ k]) simp
  with k(2) show "find_genre_id lower genres genre = Some gid"
    by (simp add: find_genre_id_find)
qed

lemma search_people_Inr:
  assumes "search_people w name s = (Inr people, s')"
  shows "(\<exists>st. api_search_person w name = Response st (Some people)) \<and>
         s' = s\<lparr>calls := calls s @ [SearchPerson name]\<rparr>"
  using assms
  by (auto simp: search_people_def bind_Inr_iff client_get_Inr_iff raise_for_status_Inr_iff
      json_Inr_iff)

lemma genre_filter_resolved:
  assumes pl: "python_lower lower"
    and nz: "\<not> resolves_to lower genres genre 0"
  shows "(if \<exists>gid. resolves_to lower genres genre gid
          then \<exists>gid. resolves_to lower genres genre gid \<and>
                 (if truthy_int (find_genre_id lower genres genre)
                  then filter (\<lambda>show. the (find_genre_id lower genres genre) \<in> set (i_genre_ids show)) credits
                  else credits) = filter (\<lambda>show. gid \<in> set (i_genre_ids show)) credits
          else (if truthy_int (find_genre_id lower genres genre)
                  then filter (\<lambda>show. the (find_genre_id lower genres genre) \<in> set (i_genre_ids show)) credits
                  else credits) = credits)"
proof (cases "find_genre_id lower genres genre")
  case None
  then have "\<not> (\<exists>gid. resolves_to lower genres genre gid)"
    by (simp add: find_genre_id_resolves[OF pl, symmetric])
  with None show ?thesis by simp
next
  case (Some gid)
  then have r: "resolves_to lower genres genre gid"
    by (simp add: find_genre_id_resolves[OF pl, symmetric])
  with nz have "gid \<noteq> 0" by auto
  with Some r show ?thesis by auto
qed

lemma discover_tv_actor_Inr:
  assumes run: "discover_tv_by_filters lower w genre actors s = (Inr (data, endpoint), s')"
    and act: "truthy actors"
    and pl: "python_lower lower"
    and nz: "\<And>genres. truthy genre \<Longrightarrow> fst (fetch_genres w True s) = Inr genres \<Longrightarrow>
               \<not> resolves_to lower genres (the genre) 0"
  shows "endpoint = Tv \<and> actor_credit_candidates lower w s genre (the actors) data"
proof -
  from run act obtain people s1 where
    sp: "search_people w (the actors) s = (Inr people, s1)" and
    rest: "(case people of
          [] \<Rightarrow> return ([], Tv)
        | person_id # _ \<Rightarrow>
            bind (client_get (PersonTvCredits person_id) (api_tv_credits w person_id)) (\<lambda>(st, body).
            bind (raise_for_status (PersonTvCredits person_id) st) (\<lambda>_.
            bind (json (PersonTvCredits person_id) body) (\<lambda>credits.
            if truthy genre then
              bind (fetch_genres w True) (\<lambda>genres.
              let genre_id = find_genre_id lower genres (the genre) in
              if truthy_int genre_id then
                return (filter (\<lambda>show. the genre_id \<in> set (i_genre_ids show)) credits, Tv)
              else return (credits, Tv))
            else return (credits, Tv))))) s1 = (Inr (data, endpoint), s')"
    unfolding discover_tv_by_filters_def by (auto simp: bind_Inr_iff)
  from search_people_Inr[OF sp] obtain st where
    st: "api_search_person w (the actors) = Response st (Some people)" and
    s1: "s1 = s\<lparr>calls := calls s @ [SearchPerson (the actors)]\<rparr>"
    by blast
  show ?thesis
  proof (cases people)
    case Nil
    with rest st show ?thesis
      by (auto simp: return_iff actor_credit_candidates_def)
  next
    case (Cons person more)
    from rest[unfolded Cons list.case bind_Inr_iff] obtain st' credits sc where
      cr: "api_tv_credits w person = Response st' (Some credits)" and
      sc: "sc = s1\<lparr>calls := calls s1 @ [PersonTvCredits person]\<rparr>" and
      fin: "(if truthy genre then
              bind (fetch_genres w True) (\<lambda>genres.
              let genre_id = find_genre_id lower genres (the genre) in
              if truthy_int genre_id then
                return (filter (\<lambda>show. the genre_id \<in> set (i_genre_ids show)) credits, Tv)
              else return (credits, Tv))
            else return (credits, Tv)) sc = (Inr (data, endpoint), s')"
      by (auto simp: client_get_Inr_iff raise_for_status_Inr_iff json_Inr_iff bind_Inr_iff)
    from sc s1 have sc': "sc = s\<lparr>calls := calls s @ [SearchPerson (the actors), PersonTvCredits person]\<rparr>"
      by simp
    have "endpoint = Tv \<and>
          (if truthy genre then
             (\<exists>genres. fst (fetch_genres w True s) = Inr genres \<and>
                (if \<exists>gid. resolves_to lower genres (the genre) gid
                 then \<exists>gid. resolves_to lower genres (the genre) gid \<and>
                        data = filter (\<lambda>show. gid \<in> set (i_genre_ids show)) credits
                 else data = credits))
           else data = credits)"
    proof (cases "truthy genre")
      case True
      with fin obtain genres sd where
        fg: "fetch_genres w True sc = (Inr genres, sd)" and
        d: "(if truthy_int (find_genre_id lower genres (the genre)) then
                return (filter (\<lambda>show. the (find_genre_id lower genres (the genre)) \<in> set (i_genre_ids show)) credits, Tv)
              else return (credits, Tv)) sd = (Inr (data, endpoint), s')"
        by (auto simp: bind_Inr_iff Let_def)
      from fg have "fst (fetch_genres w True sc) = Inr genres" by simp
      then have fgs: "fst (fetch_genres w True s) = Inr genres"
        unfolding sc' by (simp only: fetch_genres_calls)
      from d have e: "endpoint = Tv" and
        dd: "data = (if truthy_int (find_genre_id lower genres (the genre))
                     then filter (\<lambda>show. the (find_genre_id lower genres (the genre))
                                           \<in> set (i_genre_ids show)) credits
                     else credits)"
        by (auto simp: return_iff split: if_splits)
      from genre_filter_resolved[OF pl nz[OF True fgs], of credits]
      have "if \<exists>gid. resolves_to lower genres (the genre) gid
            then \<exists>gid. resolves_to lower genres (the genre) gid \<and>
                   data = filter (\<lambda>show. gid \<in> set (i_genre_ids show)) credits
            else data = credits"
        unfolding dd .
      with fgs have "\<exists>genres. fst (fetch_genres w True s) = Inr genres \<and>
                (if \<exists>gid. resolves_to lower genres (the genre) gid
                 then \<exists>gid. resolves_to lower genres (the genre) gid \<and>
                        data = filter (\<lambda>show. gid \<in> set (i_genre_ids show)) credits
                 else data = credits)"
        by blast
      with e True show ?thesis by simp
    next
      case False
      with fin show ?thesis by (simp add: return_iff)
    qed
    then have e: "endpoint = Tv" and
      body: "if truthy genre then
             (\<exists>genres. fst (fetch_genres w True s) = Inr genres \<and>
                (if \<exists>gid. resolves_to lower genres (the genre) gid
                 then \<exists>gid. resolves_to lower genres (the genre) gid \<and>
                        data = filter (\<lambda>show. gid \<in> set (i_genre_ids show)) credits
                 else data = credits))
           else data = credits"
      by blast+
    from cr body have "\<exists>st' credits. api_tv_credits w person = Response st' (Some credits) \<and>
          (if truthy genre then
             (\<exists>genres. fst (fetch_genres w True s) = Inr genres \<and>
                (if \<exists>gid. resolves_to lower genres (the genre) gid
                 then \<exists>gid. resolves_to lower genres (the genre) gid \<and>
                        data = filter (\<lambda>show. gid \<in> set (i_genre_ids show)) credits
                 else data = credits))
           else data = credits)"
      by blast
    with st Cons have "actor_credit_candidates lower w s genre (the actors) data"
      unfolding actor_credit_candidates_def by (intro exI[of _ st] exI[of _ people]) simp
    with e show ?thesis by simp
  qed
qed

lemma title_with_filters_Inr:
  assumes run: "search_by_title_with_filters lower w params is_series s = (Inr movies, s')"
    and pl: "python_lower lower"
    and nz: "\<And>genres. truthy (p_actors params) \<Longrightarrow> is_series \<Longrightarrow> truthy (p_genre params) \<Longrightarrow>
               fst (fetch_genres w True s) = Inr genres \<Longrightarrow>
               \<not> resolves_to lower genres (the (p_genre params)) 0"
  shows "\<exists>data genres mapped.
           list_all2 (mapped_from w params genres (ep_of is_series)) data mapped \<and>
           movies = filter (\<lambda>m. matches lower m params) mapped \<and>
           (if truthy (p_actors params) \<and> is_series
            then actor_credit_candidates lower w s (p_genre params) (the (p_actors params)) data
            else (\<exists>st. api_search w (ep_of is_series) (p_title params) = Response st (Some data)))"
proof -
  from run obtain data endpoint s1 genres s2 mapped s3 where
    c: "(if truthy (p_actors params) \<and> is_series
           then discover_by_filters lower w (p_genre params) (p_actors params) is_series
           else get_search_results w (p_title params) is_series) s = (Inr (data, endpoint), s1)" and
    g: "gather (map (\<lambda>item. map_to_movie w item endpoint genres params) data) s2 = (Inr mapped, s3)" and
    m: "movies = filter (\<lambda>m. matches lower m params) mapped"
    by (auto simp: search_by_title_with_filters_def bind_Inr_iff return_iff)
  have ce: "endpoint = ep_of is_series \<and>
            (if truthy (p_actors params) \<and> is_series
            then actor_credit_candidates lower w s (p_genre params) (the (p_actors params)) data
            else (\<exists>st. api_search w (ep_of is_series) (p_title params) = Response st (Some data)))"
  proof (cases "truthy (p_actors params) \<and> is_series")
    case True
    with c have d: "discover_tv_by_filters lower w (p_genre params) (p_actors params) s = (Inr (data, endpoint), s1)"
      by (simp add: discover_by_filters_def)
    from True have a: "truthy (p_actors params)" and i: "is_series" by simp_all
    from discover_tv_actor_Inr[OF d a pl nz[OF a i]] True show ?thesis by (simp add: ep_of_def)
  next
    case False
    with c have "get_search_results w (p_title params) is_series s = (Inr (data, endpoint), s1)"
      by (simp split: if_splits)
    from get_search_results_Inr[OF this] False show ?thesis by auto
  qed
  from gather_map_Inr[OF g] ce have
    "list_all2 (mapped_from w params genres (ep_of is_series)) data mapped"
    by (simp add: mapped_from_def[abs_def])
  with m ce show ?thesis by blast
qed

text \<open>
  The candidates of the title-with-filters strategy, wherever the genre does not resolve
  to the ID \<open>0\<close> on the actor-credit path: if actors is set and the media type is series,
  they are those of the actor-credit path, the credit list kept to the resolved genre ID
  when the genre is set as well; in every other case they are the results of one title
  search on the endpoint of the media type. In both cases the result is the mapped
  candidates that pass the match filter.
\<close>

lemma title_with_filters_candidates:
  assumes "truthy (p_title params)"
    and "truthy (p_genre params) \<or> truthy (p_actors params) \<or> p_type params \<noteq> None"
    and "fst (search_tmdb lower w params s) = Inr movies"
    and pl: "python_lower lower"
    and nz: "\<And>genres. truthy (p_actors params) \<Longrightarrow> p_type params = Some Series \<Longrightarrow>
               truthy (p_genre params) \<Longrightarrow> fst (fetch_genres w True s) = Inr genres \<Longrightarrow>
               \<not> resolves_to lower genres (the (p_genre params)) 0"
  shows "\<exists>data genres mapped.
           list_all2 (mapped_from w params genres (ep_of (p_type params = Some Series))) data mapped \<and>
           movies = filter (\<lambda>m. matches lower m params) mapped \<and>
           (\<forall>m \<in> set movies. matches lower m params) \<and>
           (if truthy (p_actors params) \<and> p_type params = Some Series
            then actor_credit_candidates lower w s (p_genre params) (the (p_actors params)) data
            else (\<exists>st. api_search w (ep_of (p_type params = Some Series)) (p_title params) =
                         Response st (Some data)))"
proof -
  from assms(1,2) have "search_tmdb lower w params =
      search_by_title_with_filters lower w params (p_type params = Some Series)"
    by (auto simp: search_tmdb_def Let_def)
  with fst_run[OF assms(3)] obtain s' where
    r: "search_by_title_with_filters lower w params (p_type params = Some Series) s = (Inr movies, s')"
    by auto
  from title_with_filters_Inr[OF r pl nz] obtain data genres mapped where
    l: "list_all2 (mapped_from w params genres (ep_of (p_type params = Some Series))) data mapped" and
    m: "movies = filter (\<lambda>m. matches lower m params) mapped" and
    c: "if truthy (p_actors params) \<and> p_type params = Some Series
            then actor_credit_candidates lower w s (p_genre params) (the (p_actors params)) data
            else (\<exists>st. api_search w (ep_of (p_type params = Some Series)) (p_title params) =
                         Response st (Some data))"
    by blast
  from m have a: "\<forall>m \<in> set movies. matches lower m params" by simp
  from l m a c show ?thesis by blast
qed

lemma title_with_filters_candidates_sample:
  "\<exists>data genres mapped.
     list_all2 (mapped_from ex_world ex_query_actor genres Tv) data mapped \<and>
     [ex_record_b Series] = filter (\<lambda>m. matches ascii_lower m ex_query_actor) mapped \<and>
     actor_credit_candidates ascii_lower ex_world ex_state (Some ''Drama'') ''Jane'' data"
proof -
  have run: "fst (search_tmdb ascii_lower ex_world ex_query_actor ex_state) = Inr [ex_record_b Series]"
    by code_simp
  have h: "truthy (p_title ex_query_actor)"
    "truthy (p_genre ex_query_actor) \<or> truthy (p_actors ex_query_actor) \<or> p_type ex_query_actor \<noteq> None"
    by (simp_all add: ex_query_actor_def)
  have q: "truthy (p_actors ex_query_actor) \<and> p_type ex_query_actor = Some Series"
    "p_genre ex_query_actor = Some ''Drama''" "the (p_actors ex_query_actor) = ''Jane''"
    by (simp_all add: ex_query_actor_def)
  have tax: "fst (fetch_genres ex_world True ex_state) = Inr [(18, ''Drama''), (35, ''Comedy'')]"
    by code_simp
  have fg: "find_genre_id ascii_lower [(18, ''Drama''), (35, ''Comedy'')] ''Drama'' = Some 18"
    by code_simp
  have nz: "\<not> resolves_to ascii_lower genres (the (p_genre ex_query_actor)) 0"
    if "fst (fetch_genres ex_world True ex_state) = Inr genres" for genres
    using that tax fg q(2) by (simp add: find_genre_id_resolves[OF python_lower_ascii, symmetric])
  from title_with_filters_candidates[OF h run python_lower_ascii nz] q show ?thesis
    by (simp add: ep_of_def) blast
qed

text \<open>
  C8. The claim, that on the actor-credit path the credit list is kept to the resolved
  genre ID whenever the genre is set, fails in the code where the genre resolves to the
  ID \<open>0\<close>. With a series taxonomy in which Drama has the ID \<open>0\<close>, the query for the
  title Show, the actor Jane, the media type series and the genre Drama gets the whole
  credit list of Jane as its candidates, though neither credit carries the ID \<open>0\<close>:
  \<^verbatim>\<open>if genre_id:\<close> tests the integer, and \<open>0\<close> is falsy. Both credits are then
  mapped, at the cost of five upstream requests. The sibling paths take
  \<^verbatim>\<open>str(i)\<close> before the same test, so that the series discovery without an actor sends
  \<^verbatim>\<open>with_genres=0\<close> for the same genre.
\<close>

theorem genre_zero_credits_unfiltered:
  "fst (fetch_genres ex_world_zero True ex_state) = Inr [(0, ''Drama''), (35, ''Comedy'')]
   \<and> find_genre_id ascii_lower [(0, ''Drama''), (35, ''Comedy'')] ''Drama'' = Some 0
   \<and> fst (discover_tv_by_filters ascii_lower ex_world_zero (Some ''Drama'') (Some ''Jane'') ex_state) =
       Inr ([ex_item_b, ex_item_a], Tv)
   \<and> 0 \<notin> set (i_genre_ids ex_item_b) \<and> 0 \<notin> set (i_genre_ids ex_item_a)
   \<and> \<not> actor_credit_candidates ascii_lower ex_world_zero ex_state (Some ''Drama'') ''Jane''
          [ex_item_b, ex_item_a]
   \<and> calls (snd (search_tmdb ascii_lower ex_world_zero ex_query_actor ex_state)) =
       [SearchPerson ''Jane'', PersonTvCredits (Some 7), GenreList Tv,
        Credits Tv (Some 200), Detail Tv (Some 200),
        Credits Tv (Some 101), Detail Tv (Some 101), Omdb ''tt123'']
   \<and> calls (snd (discover_tv_by_filters ascii_lower ex_world_zero (Some ''Drama'') None ex_state)) =
       [GenreList Tv, Discover Tv (Some ''0'') None]"
proof -
  have tax: "fst (fetch_genres ex_world_zero True ex_state) = Inr [(0, ''Drama''), (35, ''Comedy'')]"
    by code_simp
  have fg: "find_genre_id ascii_lower [(0, ''Drama''), (35, ''Comedy'')] ''Drama'' = Some 0"
    by code_simp
  have res: "resolves_to ascii_lower [(0, ''Drama''), (35, ''Comedy'')] ''Drama'' gid = (gid = 0)"
    for gid
    using fg by (auto simp: find_genre_id_resolves[OF python_lower_ascii, symmetric])
  have run: "fst (discover_tv_by_filters ascii_lower ex_world_zero (Some ''Drama'') (Some ''Jane'') ex_state) =
       Inr ([ex_item_b, ex_item_a], Tv)"
    by code_simp
  have ids: "0 \<notin> set (i_genre_ids ex_item_b)" "0 \<notin> set (i_genre_ids ex_item_a)"
    by (simp_all add: ex_item_a_def ex_item_b_def)
  have sp: "api_search_person ex_world_zero ''Jane'' = Response 200 (Some [Some 7])"
    by (simp add: ex_world_zero_def ex_world_def)
  have tc: "api_tv_credits ex_world_zero (Some 7) = Response 200 (Some [ex_item_b, ex_item_a])"
    by (simp add: ex_world_zero_def ex_world_def)
  have nc: "\<not> actor_credit_candidates ascii_lower ex_world_zero ex_state (Some ''Drama'') ''Jane''
          [ex_item_b, ex_item_a]"
    unfolding actor_credit_candidates_def by (simp add: sp tc tax res ids)
  have c1: "calls (snd (search_tmdb ascii_lower ex_world_zero ex_query_actor ex_state)) =
       [SearchPerson ''Jane'', PersonTvCredits (Some 7), GenreList Tv,
        Credits Tv (Some 200), Detail Tv (Some 200),
        Credits Tv (Some 101), Detail Tv (Some 101), Omdb ''tt123'']"
    by code_simp
  have c2: "calls (snd (discover_tv_by_filters ascii_lower ex_world_zero (Some ''Drama'') None ex_state)) =
       [GenreList Tv, Discover Tv (Some ''0'') None]"
    by code_simp
  from tax fg run ids nc c1 c2 show ?thesis by simp
qed

section \<open>Propagation of upstream failures\<close>

lemma propagates_return: "propagates w (return x)"
  by (simp add: propagates_def return_def)

lemma propagates_raise: "propagates w (raise e)"
  by (simp add: propagates_def raise_def)

lemma propagates_bind:
  assumes m: "propagates w m" and f: "\<And>x. propagates w (f x)"
  shows "propagates w (bind m f)"
  unfolding propagates_def
proof
  fix s :: state
  obtain r1 s1 where ms: "m s = (r1, s1)" by (cases "m s")
  from m[unfolded propagates_def, rule_format, of s] ms obtain new1 where
    n1: "calls s1 = calls s @ new1" "(\<exists>r \<in> set new1. fatal_failure w r) \<longrightarrow> isl r1"
    by auto
  show "\<exists>new. calls (snd (bind m f s)) = calls s @ new \<and>
              ((\<exists>r \<in> set new. fatal_failure w r) \<longrightarrow> isl (fst (bind m f s)))"
  proof (cases r1)
    case (Inl e)
    with ms have "bind m f s = (Inl e, s1)" by (simp add: bind_def)
    with n1 show ?thesis by auto
  next
    case (Inr x)
    with ms have b: "bind m f s = f x s1" by (simp add: bind_def)
    from f[of x, unfolded propagates_def, rule_format, of s1] obtain new2 where
      n2: "calls (snd (f x s1)) = calls s1 @ new2"
        "(\<exists>r \<in> set new2. fatal_failure w r) \<longrightarrow> isl (fst (f x s1))"
      by auto
    from n1(2) Inr have nofatal: "\<not> (\<exists>r \<in> set new1. fatal_failure w r)" by auto
    have "calls (snd (bind m f s)) = calls s @ (new1 @ new2)" using b n1(1) n2(1) by simp
    moreover have "(\<exists>r \<in> set (new1 @ new2). fatal_failure w r) \<longrightarrow> isl (fst (bind m f s))"
      using b n2(2) nofatal by auto
    ultimately show ?thesis by blast
  qed
qed

lemma propagates_if:
  "propagates w a \<Longrightarrow> propagates w b \<Longrightarrow> propagates w (if c then a else b)"
  by simp

lemma propagates_case_prod:
  "(\<And>a b. propagates w (f a b)) \<Longrightarrow> propagates w (case x of (a, b) \<Rightarrow> f a b)"
  by (cases x) simp

lemma propagates_case_option:
  "propagates w a \<Longrightarrow> (\<And>y. propagates w (f y)) \<Longrightarrow>
     propagates w (case x of None \<Rightarrow> a | Some y \<Rightarrow> f y)"
  by (cases x) simp_all

lemma propagates_case_list:
  "propagates w a \<Longrightarrow> (\<And>y ys. propagates w (f y ys)) \<Longrightarrow>
     propagates w (case x of [] \<Rightarrow> a | y # ys \<Rightarrow> f y ys)"
  by (cases x) simp_all

lemma propagates_gather_map:
  assumes "\<And>x. propagates w (f x)"
  shows "propagates w (gather (map f xs))"
proof (induction xs)
  case Nil
  show ?case by (simp add: propagates_return)
next
  case (Cons x xs)
  show ?case
    by (simp, intro propagates_bind assms Cons.IH propagates_return)
qed


lemma propagates_silent:
  assumes "\<And>s. calls (snd (m s)) = calls s"
  shows "propagates w m"
  unfolding propagates_def
proof
  fix s :: state
  from assms[of s] show "\<exists>new. calls (snd (m s)) = calls s @ new \<and>
              ((\<exists>r \<in> set new. fatal_failure w r) \<longrightarrow> isl (fst (m s)))"
    by (intro exI[of _ "[]"]) simp
qed

lemma propagates_json: "propagates w (json r body)"
  by (rule propagates_silent) (cases body; simp add: json_def return_def raise_def)

lemma propagates_py_int: "propagates w (py_int t)"
  by (rule propagates_silent) (cases "parse_int t"; simp add: py_int_def return_def raise_def)

lemma propagates_redis:
  "propagates w (redis_get_genres ep)" "propagates w (redis_set_genres ep v ex)"
  "propagates w (redis_get_popular ep)" "propagates w (redis_set_popular ep items ex)"
  by (rule propagates_silent, simp add: redis_get_genres_def redis_set_genres_def
        redis_get_popular_def redis_set_popular_def)+

lemma propagates_make_response:
  "propagates w (make_response ident title year ty gl actors director runtime plot poster ratings src)"
  by (rule propagates_silent) (cases title; simp add: make_response_def return_def raise_def)

lemma raise_for_status_ok: "ok_status st \<Longrightarrow> raise_for_status r st s = (Inr (), s)"
  by (simp add: raise_for_status_def ok_status_def return_def)

lemma raise_for_status_fail:
  "\<not> ok_status st \<Longrightarrow> raise_for_status r st s = (Inl (HTTPStatusError r st), s)"
  by (auto simp: raise_for_status_def ok_status_def raise_def)

lemma propagates_checked:
  assumes fr: "fatal_failure w r = failed resp"
    and k: "\<And>body. propagates w (k body)"
  shows "propagates w (bind (client_get r resp) (\<lambda>(st, body).
           bind (raise_for_status r st) (\<lambda>_. k body)))"
    (is "propagates w ?m")
  unfolding propagates_def
proof
  fix s :: state
  let ?s1 = "s\<lparr>calls := calls s @ [r]\<rparr>"
  show "\<exists>new. calls (snd (?m s)) = calls s @ new \<and>
              ((\<exists>r \<in> set new. fatal_failure w r) \<longrightarrow> isl (fst (?m s)))"
  proof (cases resp)
    case NetworkError
    then have "?m s = (Inl (RequestError r), ?s1)" by (simp add: bind_def client_get_def)
    then show ?thesis by (intro exI[of _ "[r]"]) simp
  next
    case (Response st body)
    then have cg: "client_get r resp s = (Inr (st, body), ?s1)" by (simp add: client_get_def)
    show ?thesis
    proof (cases "ok_status st")
      case False
      with cg have "?m s = (Inl (HTTPStatusError r st), ?s1)"
        by (simp add: bind_def raise_for_status_fail)
      then show ?thesis by (intro exI[of _ "[r]"]) simp
    next
      case True
      with Response fr have nf: "\<not> fatal_failure w r" by simp
      from cg True have eq: "?m s = k body ?s1" by (simp add: bind_def raise_for_status_ok)
      from k[of body, unfolded propagates_def, rule_format, of ?s1] obtain new2 where
        n2: "calls (snd (k body ?s1)) = calls ?s1 @ new2"
          "(\<exists>r \<in> set new2. fatal_failure w r) \<longrightarrow> isl (fst (k body ?s1))"
        by auto
      have "calls (snd (?m s)) = calls s @ (r # new2)" using eq n2(1) by simp
      moreover have "(\<exists>q \<in> set (r # new2). fatal_failure w q) \<longrightarrow> isl (fst (?m s))"
        using eq n2(2) nf by auto
      ultimately show ?thesis by blast
    qed
  qed
qed

lemma propagates_get_imdb_id: "propagates w (get_imdb_id w media_type tmdb_id)"
  unfolding propagates_def
proof
  fix s :: state
  let ?r = "Detail media_type tmdb_id"
  let ?m = "get_imdb_id w media_type tmdb_id"
  let ?s1 = "s\<lparr>calls := calls s @ [?r]\<rparr>"
  have c: "calls (snd (?m s)) = calls s @ [?r]"
    by (cases "api_detail w media_type tmdb_id")
       (auto simp: get_imdb_id_def bind_def client_get_def json_def return_def raise_def
          split: option.splits)
  have f: "fatal_failure w ?r \<longrightarrow> isl (fst (?m s))"
    by (cases "api_detail w media_type tmdb_id")
       (auto simp: get_imdb_id_def bind_def client_get_def)
  from c f show "\<exists>new. calls (snd (?m s)) = calls s @ new \<and>
              ((\<exists>r \<in> set new. fatal_failure w r) \<longrightarrow> isl (fst (?m s)))"
    by (intro exI[of _ "[?r]"]) simp
qed

lemma propagates_fetch_omdb_data: "propagates w (fetch_omdb_data w imdb_id)"
  unfolding propagates_def
proof
  fix s :: state
  let ?r = "Omdb imdb_id"
  let ?m = "fetch_omdb_data w imdb_id"
  have c: "calls (snd (?m s)) = calls s @ [?r]"
    by (cases "api_omdb w imdb_id")
       (auto simp: fetch_omdb_data_def bind_def client_get_def json_def return_def raise_def
          split: option.splits)
  then show "\<exists>new. calls (snd (?m s)) = calls s @ new \<and>
              ((\<exists>r \<in> set new. fatal_failure w r) \<longrightarrow> isl (fst (?m s)))"
    by (intro exI[of _ "[?r]"]) simp
qed

lemma propagates_int_keys: "propagates w (int_keys kvs d)"
proof (rule propagates_silent)
  fix s
  from int_keys_pure[of kvs d] obtain r where "\<forall>s. int_keys kvs d s = (r, s)" ..
  then show "calls (snd (int_keys kvs d s)) = calls s" by simp
qed

lemmas propagates_intros =
  propagates_bind propagates_if propagates_case_prod propagates_case_option
  propagates_case_list propagates_gather_map propagates_return propagates_raise
  propagates_json propagates_py_int propagates_redis propagates_make_response
  propagates_get_imdb_id propagates_fetch_omdb_data propagates_int_keys

lemma propagates_fetch_genres: "propagates w (fetch_genres w is_series)"
  unfolding fetch_genres_def Let_def
  by (intro propagates_intros propagates_checked) simp

lemma propagates_get_search_results: "propagates w (get_search_results w title is_series)"
  unfolding get_search_results_def Let_def
  by (intro propagates_intros propagates_checked) simp

lemma propagates_search_people: "propagates w (search_people w name)"
  unfolding search_people_def
  by (intro propagates_intros propagates_checked) simp

lemma propagates_discover_call: "propagates w (discover_call w ep wg wc)"
  unfolding discover_call_def
  by (intro propagates_intros propagates_checked) simp

lemma propagates_get_popular: "propagates w (get_popular w is_series)"
  unfolding get_popular_def Let_def
  by (intro propagates_intros propagates_checked) simp

lemma propagates_fetch_credits: "propagates w (fetch_credits w media_type tmdb_id)"
  unfolding fetch_credits_def
  by (intro propagates_intros propagates_checked) simp


lemmas propagates_clients =
  propagates_fetch_genres propagates_get_search_results propagates_search_people
  propagates_discover_call propagates_get_popular propagates_fetch_credits

lemma propagates_resolve_with_genres: "propagates w (resolve_with_genres lower w is_series genre)"
  unfolding resolve_with_genres_def Let_def
  by (intro propagates_intros propagates_clients)

lemma propagates_discover_by_filters: "propagates w (discover_by_filters lower w genre actors is_series)"
  unfolding discover_by_filters_def discover_movie_by_filters_def discover_tv_by_filters_def Let_def
  by (intro propagates_intros propagates_clients propagates_resolve_with_genres
        propagates_checked) simp

lemma propagates_year_of_date: "propagates w (year_of_date date)"
  unfolding year_of_date_def
  by (intro propagates_intros)

lemma propagates_map_to_movie: "propagates w (map_to_movie w item media_type genres params)"
  unfolding map_to_movie_def Let_def
  by (intro propagates_intros propagates_clients propagates_year_of_date)

lemma propagates_title_only_loop: "propagates w (title_only_loop w params eps movies)"
proof (induction eps arbitrary: movies)
  case Nil
  show ?case by (simp add: propagates_return)
next
  case (Cons ep eps)
  show ?case
    by (simp, intro propagates_intros propagates_clients propagates_map_to_movie Cons.IH)
qed

lemma propagates_search_tmdb: "propagates w (search_tmdb lower w params)"
  unfolding search_tmdb_def search_by_title_only_def search_by_title_with_filters_def
    search_by_filters_only_def get_popular_fallback_def Let_def
  by (intro propagates_intros propagates_clients propagates_map_to_movie
        propagates_title_only_loop propagates_discover_by_filters)

section \<open>Claims about upstream failures\<close>

text \<open>
  C6, as amended. For every request, a transport failure or a status outside 200..299 on
  any call the request sends to the catalog provider's search, discovery, person, credit
  list, popularity, taxonomy or credits endpoints, and a transport failure on the per-item
  detail call, ends the whole request with the single error of status 502 and no result
  list. (A detail call that answers with another status than 200 is no such failure: the
  item is mapped without a cross-reference ID.)
\<close>

theorem required_call_failure_is_fatal:
  assumes "calls (snd (search_movies lower w params s)) = calls s @ new"
    and "r \<in> set new"
    and "fatal_failure w r"
  shows "\<exists>e. fst (search_movies lower w params s) = Inl (HTTPException 502 e)"
proof -
  from propagates_search_tmdb[where lower=lower, of w params, unfolded propagates_def, rule_format, of s]
  obtain new' where
    n: "calls (snd (search_tmdb lower w params s)) = calls s @ new'"
      "(\<exists>r \<in> set new'. fatal_failure w r) \<longrightarrow> isl (fst (search_tmdb lower w params s))"
    by auto
  obtain res s' where run: "search_tmdb lower w params s = (res, s')" by (cases "search_tmdb lower w params s")
  have sm: "snd (search_movies lower w params s) = s'"
    using run by (cases res) (simp_all add: search_movies_def)
  with assms(1) n(1) run have "new' = new" by simp
  with n(2) assms(2,3) run have "isl res" by auto
  then obtain e where "res = Inl e" by (cases res) auto
  with run show ?thesis by (simp add: search_movies_def)
qed

theorem required_call_failure_is_fatal_witness:
  "\<exists>e. fst (search_movies ascii_lower ex_world_no_credits ex_query_title ex_state) = Inl (HTTPException 502 e)"
proof -
  have c: "calls (snd (search_movies ascii_lower ex_world_no_credits ex_query_title ex_state)) =
             calls ex_state @ [Search Tv (Some ''Show''), GenreList Tv, Credits Tv (Some 200)]"
    by code_simp
  have m: "Credits Tv (Some 200) \<in> set [Search Tv (Some ''Show''), GenreList Tv, Credits Tv (Some 200)]"
    by simp
  have f: "fatal_failure ex_world_no_credits (Credits Tv (Some 200))"
    by (simp add: ex_world_no_credits_def ok_status_def)
  from required_call_failure_is_fatal[OF c m f] show ?thesis .
qed

text \<open>
  The claim as first stated counts the detail call among the calls whose HTTP failure is
  fatal. In the sample catalog the detail call of item 200 answers 404, the request sends
  it, and the request still returns both records.
\<close>

theorem detail_failure_degrades_counterexample:
  "http_failure ex_world (Detail Tv (Some 200))
   \<and> Detail Tv (Some 200) \<in> set (calls (snd (search_movies ascii_lower ex_world ex_query_title ex_state)))
   \<and> fst (search_movies ascii_lower ex_world ex_query_title ex_state) = Inr [ex_record_b Series, ex_record_a]"
proof -
  have a: "http_failure ex_world (Detail Tv (Some 200))"
    by (simp add: ex_world_def ok_status_def)
  have b: "Detail Tv (Some 200) \<in> set (calls (snd (search_movies ascii_lower ex_world ex_query_title ex_state)))"
    by code_simp
  have c: "fst (search_movies ascii_lower ex_world ex_query_title ex_state) = Inr [ex_record_b Series, ex_record_a]"
    by code_simp
  from a b c show ?thesis by blast
qed

end
